theory Spec2Isabelle
  imports Complex_Main
begin

section \<open>JavaScript values\<close>

text \<open>
  The handlers of this repository work on parsed JSON. A JavaScript number is a finite
  value, an infinity or NaN; a finite value is a rational, and the operators below compute
  exactly. The one computation of the handlers whose result depends on rounding, the fit
  of the label on the page, is given in exact arithmetic and in binary64, where every
  operation is rounded (section "Document composition"). The sign of zero is outside the
  model. A string is a list of code units below 256. An object is the list of its own
  properties in insertion order, with distinct keys.
\<close>

datatype jsnum = NaN | Inf bool | Fin rat

datatype jsval =
    JUndefined
  | JNull
  | JBool bool
  | JNum jsnum
  | JStr string
  | JArr "jsval list"
  | JObj "(string \<times> jsval) list"

text \<open>
  Conversions of the JavaScript platform that the repository calls but does not define:
  \<open>Buffer.from(s, "base64").toString("utf8")\<close>, \<open>JSON.parse\<close> (\<open>Inl\<close> is the
  SyntaxError), the numeric value of a string, the string form of a number and
  \<open>JSON.stringify\<close>. Every function below takes them as a parameter.
\<close>

record runtime =
  b64_utf8 :: "string \<Rightarrow> string"
  json_parse :: "string \<Rightarrow> string + jsval"
  str_to_num :: "string \<Rightarrow> jsnum"
  num_to_str :: "jsnum \<Rightarrow> string"
  json_stringify :: "jsval \<Rightarrow> string"

fun join :: "string \<Rightarrow> string list \<Rightarrow> string" where
  "join sep [] = []"
| "join sep [s] = s"
| "join sep (s # t # ts) = s @ sep @ join sep (t # ts)"

fun truthy :: "jsval \<Rightarrow> bool" where
  "truthy JUndefined = False"
| "truthy JNull = False"
| "truthy (JBool b) = b"
| "truthy (JNum n) = (n \<noteq> NaN \<and> n \<noteq> Fin 0)"
| "truthy (JStr s) = (s \<noteq> [])"
| "truthy (JArr xs) = True"
| "truthy (JObj kvs) = True"

definition js_or :: "jsval \<Rightarrow> jsval \<Rightarrow> jsval" where
  "js_or a b = (if truthy a then a else b)"

definition nullish :: "jsval \<Rightarrow> bool" where
  "nullish v = (v = JUndefined \<or> v = JNull)"

definition js_nullish_or :: "jsval \<Rightarrow> jsval \<Rightarrow> jsval" where
  "js_nullish_or a b = (if nullish a then b else a)"

text \<open>
  \<open>v[k]\<close> and \<open>v?.[k]\<close> for the keys the handlers read (none of them names a built-in
  property): the own property of an object, \<open>undefined\<close> on anything else. On
  \<open>null\<close> and \<open>undefined\<close> the plain read \<open>v[k]\<close> throws a TypeError; the
  callers test \<open>nullish\<close> where the source reads without \<open>?.\<close>.
\<close>

fun get_prop :: "jsval \<Rightarrow> string \<Rightarrow> jsval" where
  "get_prop (JObj kvs) k = (case map_of kvs k of Some v \<Rightarrow> v | None \<Rightarrow> JUndefined)"
| "get_prop _ k = JUndefined"

fun ToString :: "runtime \<Rightarrow> jsval \<Rightarrow> string" where
  "ToString rt JUndefined = ''undefined''"
| "ToString rt JNull = ''null''"
| "ToString rt (JBool b) = (if b then ''true'' else ''false'')"
| "ToString rt (JNum n) = num_to_str rt n"
| "ToString rt (JStr s) = s"
| "ToString rt (JArr xs) =
     join '','' (map (\<lambda>e. if e = JUndefined \<or> e = JNull then [] else ToString rt e) xs)"
| "ToString rt (JObj kvs) = ''[object Object]''"

fun ToNumber :: "runtime \<Rightarrow> jsval \<Rightarrow> jsnum" where
  "ToNumber rt JUndefined = NaN"
| "ToNumber rt JNull = Fin 0"
| "ToNumber rt (JBool b) = (if b then Fin 1 else Fin 0)"
| "ToNumber rt (JNum n) = n"
| "ToNumber rt (JStr s) = str_to_num rt s"
| "ToNumber rt (JArr xs) = str_to_num rt (ToString rt (JArr xs))"
| "ToNumber rt (JObj kvs) = str_to_num rt (ToString rt (JObj kvs))"

definition is_ws :: "char \<Rightarrow> bool" where
  "is_ws c = (c \<in> set [CHR 0x09, CHR 0x0A, CHR 0x0B, CHR 0x0C, CHR 0x0D, CHR 0x20, CHR 0xA0])"

definition trim :: "string \<Rightarrow> string" where
  "trim s = rev (dropWhile is_ws (rev (dropWhile is_ws s)))"

fun isFinite :: "jsnum \<Rightarrow> bool" where
  "isFinite (Fin r) = True"
| "isFinite _ = False"

fun js_gt0 :: "jsnum \<Rightarrow> bool" where
  "js_gt0 (Fin r) = (0 < r)"
| "js_gt0 (Inf p) = p"
| "js_gt0 NaN = False"

fun js_mul :: "jsnum \<Rightarrow> jsnum \<Rightarrow> jsnum" where
  "js_mul (Fin a) (Fin b) = Fin (a * b)"
| "js_mul (Fin a) (Inf q) = (if a = 0 then NaN else Inf (q = (0 < a)))"
| "js_mul (Inf p) (Fin b) = (if b = 0 then NaN else Inf (p = (0 < b)))"
| "js_mul (Inf p) (Inf q) = Inf (p = q)"
| "js_mul NaN b = NaN"
| "js_mul a NaN = NaN"

fun js_div :: "jsnum \<Rightarrow> jsnum \<Rightarrow> jsnum" where
  "js_div (Fin a) (Fin b) =
     (if b = 0 then (if a = 0 then NaN else Inf (0 < a)) else Fin (a / b))"
| "js_div (Fin a) (Inf q) = Fin 0"
| "js_div (Inf p) (Fin b) = Inf (p = (0 \<le> b))"
| "js_div (Inf p) (Inf q) = NaN"
| "js_div NaN b = NaN"
| "js_div a NaN = NaN"

fun js_sub :: "jsnum \<Rightarrow> jsnum \<Rightarrow> jsnum" where
  "js_sub (Fin a) (Fin b) = Fin (a - b)"
| "js_sub (Fin a) (Inf q) = Inf (\<not> q)"
| "js_sub (Inf p) (Fin b) = Inf p"
| "js_sub (Inf p) (Inf q) = (if p = q then NaN else Inf p)"
| "js_sub NaN b = NaN"
| "js_sub a NaN = NaN"

fun js_min :: "jsnum \<Rightarrow> jsnum \<Rightarrow> jsnum" where
  "js_min NaN b = NaN"
| "js_min a NaN = NaN"
| "js_min (Inf False) b = Inf False"
| "js_min a (Inf False) = Inf False"
| "js_min (Inf True) b = b"
| "js_min a (Inf True) = a"
| "js_min (Fin a) (Fin b) = Fin (min a b)"

text \<open>\<open>a <= b\<close> and \<open>a + b\<close> on numbers, used to state bounds.\<close>

fun js_le :: "jsnum \<Rightarrow> jsnum \<Rightarrow> bool" where
  "js_le (Fin a) (Fin b) = (a \<le> b)"
| "js_le (Fin a) (Inf q) = q"
| "js_le (Inf p) (Fin b) = (if p then False else True)"
| "js_le (Inf p) (Inf q) = (if p then q else True)"
| "js_le NaN b = False"
| "js_le a NaN = False"

fun js_add :: "jsnum \<Rightarrow> jsnum \<Rightarrow> jsnum" where
  "js_add (Fin a) (Fin b) = Fin (a + b)"
| "js_add (Fin a) (Inf q) = Inf q"
| "js_add (Inf p) (Fin b) = Inf p"
| "js_add (Inf p) (Inf q) = (if p = q then Inf p else NaN)"
| "js_add NaN b = NaN"
| "js_add a NaN = NaN"

text \<open>The decimal form of a natural number, as a template literal prints an HTTP status.\<close>

function digits :: "nat \<Rightarrow> string" where
  "digits n =
     (if n < 10 then [''0123456789'' ! n]
      else digits (n div 10) @ [''0123456789'' ! (n mod 10)])"
  by pat_completeness auto
termination
  by (relation "measure id") auto

declare digits.simps [simp del]

definition show_nat :: "nat \<Rightarrow> string" where
  "show_nat n = digits n"

section \<open>Weight resolution\<close>

text \<open>\<open>normalizeWeightOz\<close> of api/mail-label.js: any finite positive number is accepted.\<close>

definition normalizeWeightOz_mail :: "runtime \<Rightarrow> jsval \<Rightarrow> jsval" where
  "normalizeWeightOz_mail rt body =
     (let oz = ToNumber rt (get_prop body ''weightOz'') in
      if isFinite oz \<and> js_gt0 oz then JNum oz
      else
        let lbs = ToNumber rt (get_prop body ''weightLbs'') in
        if isFinite lbs \<and> js_gt0 lbs then JNum (js_mul lbs (Fin 16))
        else JNull)"

text \<open>
  \<open>normalizeWeightOz\<close> of api/create-label.js: only the values of the dropdown are
  accepted, and the fallback is 32. It reads \<open>body.weightOz\<close> without \<open>?.\<close>.
\<close>

definition normalizeWeightOz_create :: "runtime \<Rightarrow> jsval \<Rightarrow> string + jsnum" where
  "normalizeWeightOz_create rt body =
     (if nullish body then Inl ''TypeError''
      else
        let oz = ToNumber rt (get_prop body ''weightOz'') in
        if isFinite oz \<and> (oz = Fin 16 \<or> oz = Fin 32) then Inr oz
        else
          let lbs = ToNumber rt (get_prop body ''weightLbs'') in
          if isFinite lbs \<and> (lbs = Fin 1 \<or> lbs = Fin 2) then Inr (js_mul lbs (Fin 16))
          else Inr (Fin 32))"

text \<open>
  The policy in the words of the specification: the ounce value if accepted, else the
  pound value times 16 if accepted, else the fallback.
\<close>

definition weight_policy ::
  "(jsnum \<Rightarrow> bool) \<Rightarrow> (jsnum \<Rightarrow> bool) \<Rightarrow> 'a \<Rightarrow> (jsnum \<Rightarrow> 'a) \<Rightarrow> jsnum \<Rightarrow> jsnum \<Rightarrow> 'a" where
  "weight_policy accepted_oz accepted_lbs fallback ret oz lbs =
     (if accepted_oz oz then ret oz
      else if accepted_lbs lbs then ret (js_mul lbs (Fin 16))
      else fallback)"

definition positive_finite :: "jsnum \<Rightarrow> bool" where
  "positive_finite n = (case n of Fin r \<Rightarrow> 0 < r | _ \<Rightarrow> False)"

definition dropdown_oz :: "jsnum \<Rightarrow> bool" where
  "dropdown_oz n = (n = Fin 16 \<or> n = Fin 32)"

definition dropdown_lbs :: "jsnum \<Rightarrow> bool" where
  "dropdown_lbs n = (n = Fin 1 \<or> n = Fin 2)"

section \<open>Document composition\<close>

record draw_opts =
  draw_x :: jsnum
  draw_y :: jsnum
  xScale :: jsnum
  yScale :: jsnum

record placement =
  scale :: jsnum
  drawW :: jsnum
  drawH :: jsnum
  pos_x :: jsnum
  pos_y :: jsnum

definition LETTER_W :: jsnum where "LETTER_W = Fin 612"
definition LETTER_H :: jsnum where "LETTER_H = Fin 792"
definition targetW :: jsnum where "targetW = Fin 420"
definition targetH :: jsnum where "targetH = Fin 600"

text \<open>
  The local constants \<open>scale\<close>, \<open>drawW\<close>, \<open>drawH\<close>, \<open>x\<close>, \<open>y\<close> that
  \<open>buildInstructionsPlusLabelPdf\<close> computes from the embedded page's width and height,
  read in exact arithmetic: a finite number is a rational and no operation rounds. The
  same assignments with every operation rounded to binary64 are \<open>fit_label_double\<close>, at
  the end of this section; for page sizes in the range of the format the two differ by
  less than \<open>2 ^ (- 42)\<close>.
\<close>

definition fit_label :: "jsnum \<Rightarrow> jsnum \<Rightarrow> placement" where
  "fit_label width height =
     (let s = js_min (js_div targetW width) (js_div targetH height);
          dw = js_mul width s;
          dh = js_mul height s
      in \<lparr>scale = s, drawW = dw, drawH = dh,
          pos_x = js_div (js_sub LETTER_W dw) (Fin 2),
          pos_y = js_div (js_sub LETTER_H dh) (Fin 2)\<rparr>)"

datatype pdf_page =
    InstructionPage nat
  | LetterPage jsnum jsnum draw_opts

text \<open>
  What the file system and pdf-lib answer: whether \<open>Buffer.from\<close> throws on the label
  data, the instructions file (absent, unreadable, or its page count), and the embedded
  first page of the label (a parse error, or its width and height).
\<close>

record pdf_world =
  buffer_error :: "string option"
  instructions :: "(string + nat) option"
  embed_label :: "string + (jsnum \<times> jsnum)"

definition buildInstructionsPlusLabelPdf :: "pdf_world \<Rightarrow> string + pdf_page list" where
  "buildInstructionsPlusLabelPdf pw =
     (case buffer_error pw of
        Some e \<Rightarrow> Inl e
      | None \<Rightarrow>
          (case (case instructions pw of
                   None \<Rightarrow> Inr []
                 | Some (Inl e) \<Rightarrow> Inl e
                 | Some (Inr n) \<Rightarrow> Inr (map InstructionPage [0..<n])) of
             Inl e \<Rightarrow> Inl e
           | Inr out \<Rightarrow>
               (case embed_label pw of
                  Inl e \<Rightarrow> Inl e
                | Inr (width, height) \<Rightarrow>
                    let p = fit_label width height in
                    Inr (out @ [LetterPage LETTER_W LETTER_H
                                  \<lparr>draw_x = pos_x p, draw_y = pos_y p,
                                   xScale = scale p, yScale = scale p\<rparr>]))))"

subsection \<open>The fit computation in binary64\<close>

text \<open>
  A JavaScript number is an IEEE 754 binary64 value, and each of \<open>/\<close>, \<open>*\<close> and \<open>-\<close>
  returns the exact result rounded to the nearest such value, ties to the even significand.
  \<open>fit_label\<close> above reads the five assignments in exact arithmetic; \<open>fit_label_double\<close>
  below is the computation as the platform performs it, with every operation rounded.

  \<open>halvings a\<close> and \<open>doublings a\<close> count the steps that bring a positive \<open>a\<close> into
  \<open>[1, 2)\<close>, so \<open>binade a\<close> is the exponent \<open>e\<close> with \<open>2 ^ e \<le> a < 2 ^ (e + 1)\<close>.
\<close>

function halvings :: "rat \<Rightarrow> nat" where
  "halvings r = (if 2 \<le> r then Suc (halvings (r / 2)) else 0)"
  by pat_completeness auto
termination
proof (relation "measure (\<lambda>r. nat \<lfloor>r\<rfloor>)")
  show "wf (measure (\<lambda>r::rat. nat \<lfloor>r\<rfloor>))"
    by simp
next
  fix r :: rat
  assume r: "2 \<le> r"
  have "of_int \<lfloor>r / 2\<rfloor> \<le> r / 2"
    by (rule of_int_floor_le)
  then have "of_int (\<lfloor>r / 2\<rfloor> + 1) \<le> r"
    using r by simp
  then have "\<lfloor>r / 2\<rfloor> + 1 \<le> \<lfloor>r\<rfloor>"
    by (simp only: le_floor_iff)
  moreover have "0 < \<lfloor>r\<rfloor>"
    using r by (simp add: zero_less_floor)
  ultimately have "nat \<lfloor>r / 2\<rfloor> < nat \<lfloor>r\<rfloor>"
    by simp
  then show "(r / 2, r) \<in> measure (\<lambda>r. nat \<lfloor>r\<rfloor>)"
    by (simp only: in_measure)
qed

declare halvings.simps [simp del]

function doublings :: "rat \<Rightarrow> nat" where
  "doublings r = (if 0 < r \<and> r < 1 then Suc (doublings (r * 2)) else 0)"
  by pat_completeness auto
termination
proof (relation "measure (\<lambda>r. nat \<lfloor>1 / r\<rfloor>)")
  show "wf (measure (\<lambda>r::rat. nat \<lfloor>1 / r\<rfloor>))"
    by simp
next
  fix r :: rat
  assume r: "0 < r \<and> r < 1"
  define c where "c = 1 / r"
  have c: "1 < c"
    using r by (simp add: c_def)
  have "\<lfloor>c / 2\<rfloor> + 1 \<le> \<lfloor>c\<rfloor>"
  proof (cases "2 \<le> c")
    case True
    have "of_int \<lfloor>c / 2\<rfloor> \<le> c / 2"
      by (rule of_int_floor_le)
    then have "of_int (\<lfloor>c / 2\<rfloor> + 1) \<le> c"
      using True by simp
    then show ?thesis
      by (simp only: le_floor_iff)
  next
    case False
    then have "c / 2 < 1"
      by simp
    then have "\<lfloor>c / 2\<rfloor> < 1"
      by (simp only: floor_less_iff of_int_1)
    moreover have "1 \<le> \<lfloor>c\<rfloor>"
      using c by (simp add: le_floor_iff)
    ultimately show ?thesis
      by linarith
  qed
  moreover have "0 < \<lfloor>c\<rfloor>"
    using c by (simp add: zero_less_floor)
  ultimately have "nat \<lfloor>c / 2\<rfloor> < nat \<lfloor>c\<rfloor>"
    by simp
  moreover have "c / 2 = 1 / (r * 2)"
    by (simp add: c_def)
  ultimately show "(r * 2, r) \<in> measure (\<lambda>r. nat \<lfloor>1 / r\<rfloor>)"
    by (simp only: in_measure c_def)
qed

declare doublings.simps [simp del]

definition binade :: "rat \<Rightarrow> int" where
  "binade a = (if 1 \<le> a then int (halvings a) else - int (doublings a))"

text \<open>The nearest integer, a tie going to the even one.\<close>

definition round_half_even :: "rat \<Rightarrow> int" where
  "round_half_even x =
     (let f = \<lfloor>x\<rfloor>; d = x - of_int f in
      if d < 1 / 2 then f
      else if 1 / 2 < d then f + 1
      else if even f then f else f + 1)"

text \<open>
  The binary64 value of an exact result \<open>r\<close>: the significand has 53 bits, so the spacing
  is \<open>2 ^ (e - 52)\<close> in the binade \<open>e\<close> of \<open>r\<close>, and \<open>2 ^ (- 1074)\<close> below the least
  normal number \<open>2 ^ (- 1022)\<close>; a rounded magnitude of \<open>2 ^ 1024\<close> or more is an infinity.
  The sign of a zero is not kept.
\<close>

definition round_double :: "rat \<Rightarrow> jsnum" where
  "round_double r =
     (if r = 0 then Fin 0
      else
        let a = \<bar>r\<bar>;
            q = max (binade a) (- 1022) - 52;
            v = of_int (round_half_even (a / 2 powi q)) * 2 powi q
        in if 2 ^ 1024 \<le> v then Inf (0 < r)
           else Fin (if 0 < r then v else - v))"

fun rnd :: "jsnum \<Rightarrow> jsnum" where
  "rnd (Fin r) = round_double r"
| "rnd n = n"

text \<open>
  The assignments of \<open>scale\<close>, \<open>drawW\<close>, \<open>drawH\<close>, \<open>x\<close> and \<open>y\<close> with every operation
  rounded. \<open>Math.min\<close> returns one of its arguments and does not round.
\<close>

definition fit_label_double :: "jsnum \<Rightarrow> jsnum \<Rightarrow> placement" where
  "fit_label_double width height =
     (let s = js_min (rnd (js_div targetW width)) (rnd (js_div targetH height));
          dw = rnd (js_mul width s);
          dh = rnd (js_mul height s)
      in \<lparr>scale = s, drawW = dw, drawH = dh,
          pos_x = rnd (js_div (rnd (js_sub LETTER_W dw)) (Fin 2)),
          pos_y = rnd (js_div (rnd (js_sub LETTER_H dh)) (Fin 2))\<rparr>)"

section \<open>Requests, responses and the outside world\<close>

record request =
  req_method :: string
  req_headers :: "(string \<times> string) list"
  req_body :: jsval

text \<open>\<open>process.env\<close>; an unset variable is the empty string (both are falsy).\<close>

record env =
  MAIL_USER :: string
  MAIL_PASS :: string
  LOB_API_KEY :: string
  SHEETS_WEBHOOK_URL :: string
  LOB_FROM_NAME :: string
  LOB_FROM_ADDRESS1 :: string
  LOB_FROM_CITY :: string
  LOB_FROM_STATE :: string
  LOB_FROM_ZIP :: string
  SERA_SIGNIN_BASE :: string
  SERA_API_BASE :: string
  SERA_CLIENT_ID :: string
  SERA_CLIENT_SECRET :: string
  SERA_REFRESH_TOKEN :: string

datatype resp_body = Json "(string \<times> jsval) list" | Text string

record response =
  res_status :: nat
  res_headers :: "(string \<times> string) list"
  res_body :: resp_body

text \<open>
  The outcome of one \<open>fetch\<close>: it rejects with an error, or resolves to a response
  with a status, its body read as JSON (\<open>None\<close>: \<open>.json()\<close> rejects) and as text.
\<close>

datatype fetch_result = FetchThrows string | FetchResp nat "jsval option" "string option"

definition resp_ok :: "nat \<Rightarrow> bool" where
  "resp_ok st = (200 \<le> st \<and> st \<le> 299)"

definition json_or_null :: "jsval option \<Rightarrow> jsval" where
  "json_or_null j = (case j of None \<Rightarrow> JNull | Some v \<Rightarrow> v)"

datatype fetch_body =
    JsonBody jsval
  | FormBody "(string \<times> string) list" "pdf_page list"
  | NoBody

text \<open>
  The trace of a handler: every call of \<open>postToSheets\<close> with its payload (whether or not
  it reaches the network) and every \<open>fetch\<close> with its URL and body.
\<close>

datatype event =
    PostToSheets "(string \<times> jsval) list"
  | Fetch string fetch_body

definition sendJson :: "nat \<Rightarrow> (string \<times> jsval) list \<Rightarrow> response" where
  "sendJson st obj =
     \<lparr>res_status = st, res_headers = [(''Content-Type'', ''application/json'')],
      res_body = Json obj\<rparr>"

definition unauthorized :: response where
  "unauthorized =
     \<lparr>res_status = 401,
      res_headers = [(''WWW-Authenticate'',
                  ''Basic realm='' @ [CHR 0x22] @ ''Return Label Mailer'' @ [CHR 0x22])],
      res_body = Text ''Unauthorized''\<rparr>"

definition header :: "request \<Rightarrow> string \<Rightarrow> string option" where
  "header req k = map_of (req_headers req) k"

definition parseBasicAuth :: "runtime \<Rightarrow> request \<Rightarrow> (string \<times> string) option" where
  "parseBasicAuth rt req =
     (let h = (case header req ''authorization'' of
                 Some v \<Rightarrow> if v \<noteq> [] then Some v else header req ''Authorization''
               | None \<Rightarrow> header req ''Authorization'')
      in case h of
           None \<Rightarrow> None
         | Some v \<Rightarrow>
             if v = [] \<or> take 6 v \<noteq> ''Basic '' then None
             else
               let b64 = trim (drop 6 v);
                   decoded = b64_utf8 rt b64
               in if CHR '':'' \<notin> set decoded then None
                  else Some (takeWhile (\<lambda>c. c \<noteq> CHR '':'') decoded,
                             tl (dropWhile (\<lambda>c. c \<noteq> CHR '':'') decoded)))"

definition getBaseUrl :: "request \<Rightarrow> string" where
  "getBaseUrl req =
     (let proto = (case header req ''x-forwarded-proto'' of
                     Some v \<Rightarrow> if v \<noteq> [] then v else ''https''
                   | None \<Rightarrow> ''https'');
          host = (case header req ''host'' of Some v \<Rightarrow> v | None \<Rightarrow> ''undefined'')
      in proto @ ''://'' @ host)"

definition requireField :: "runtime \<Rightarrow> jsval \<Rightarrow> string \<Rightarrow> string option" where
  "requireField rt body key =
     (let v = get_prop body key in
      if v = JUndefined \<or> v = JNull then None
      else
        let s = trim (ToString rt v) in
        if s = [] then None else Some s)"

text \<open>
  \<open>typeof req.body === "string" ? JSON.parse(req.body || "{}") : (req.body || {})\<close>
\<close>

definition parse_body :: "runtime \<Rightarrow> jsval \<Rightarrow> string + jsval" where
  "parse_body rt b =
     (case b of
        JStr s \<Rightarrow> json_parse rt (if s = [] then ''{}'' else s)
      | _ \<Rightarrow> Inr (if truthy b then b else JObj []))"

definition TypeError_null :: "string \<Rightarrow> string" where
  "TypeError_null k =
     ''TypeError: Cannot read properties of null (reading '' @ [CHR 0x27] @ k @ [CHR 0x27] @ '')''"

text \<open>\<open>postToSheets\<close> of api/mail-label.js and api/create-label.js.\<close>

definition postToSheets ::
  "string \<Rightarrow> fetch_result \<Rightarrow> (string \<times> jsval) list \<Rightarrow> jsval \<times> event list" where
  "postToSheets webhookUrl net payload =
     (if webhookUrl = [] then (JNull, [PostToSheets payload])
      else
        (case net of
           FetchResp st j t \<Rightarrow>
             JObj [(''ok'', JBool (resp_ok st)), (''status'', JNum (Fin (of_nat st)))]
         | FetchThrows e \<Rightarrow> JObj [(''ok'', JBool False), (''error'', JStr e)],
         [PostToSheets payload, Fetch webhookUrl (JsonBody (JObj payload))]))"

text \<open>\<open>postToSheets\<close> of the other logging draft of api/mail-label.js.\<close>

definition postToSheets_draft ::
  "string \<Rightarrow> fetch_result \<Rightarrow> (string \<times> jsval) list \<Rightarrow> jsval \<times> event list" where
  "postToSheets_draft webhookUrl net payload =
     (if webhookUrl = [] then
        (JObj [(''ok'', JBool False), (''status'', JNum (Fin 0)),
               (''error'', JStr ''Missing SHEETS_WEBHOOK_URL env var'')],
         [PostToSheets payload])
      else
        (case net of
           FetchResp st j t \<Rightarrow>
             JObj [(''ok'', JBool (resp_ok st)), (''status'', JNum (Fin (of_nat st))),
                   (''body'', JStr (case t of None \<Rightarrow> [] | Some text \<Rightarrow> text))]
         | FetchThrows e \<Rightarrow>
             JObj [(''ok'', JBool False), (''status'', JNum (Fin 0)), (''error'', JStr e)],
         [PostToSheets payload, Fetch webhookUrl (JsonBody (JObj payload))]))"

section \<open>api/mail-label.js: the handler with audit logging\<close>

text \<open>
  What the clock and the network answer during one request: \<open>Date.now()\<close>, the two
  calls of \<open>todayIso()\<close> in a payload, the label endpoint of the same deployment (its
  response to a URL and a body, with the events the endpoint itself performs), the PDF
  library, the letter-mail provider and the audit webhook.
\<close>

record mail_world =
  date_now :: nat
  created_iso :: string
  checked_iso :: string
  label_endpoint :: "string \<Rightarrow> jsval \<Rightarrow> fetch_result \<times> event list"
  pdf_io :: pdf_world
  lob_fetch :: fetch_result
  sheets_fetch :: fetch_result

text \<open>The local constants \<open>name\<close>, \<open>address1\<close>, ... of the handler.\<close>

record fields =
  f_name :: "string option"
  f_address1 :: "string option"
  f_address2 :: string
  f_city :: "string option"
  f_state :: "string option"
  f_zip :: "string option"
  f_phone :: "string option"
  f_deviceType :: "string option"

definition or_empty :: "string option \<Rightarrow> string" where
  "or_empty v = (case v of Some s \<Rightarrow> s | None \<Rightarrow> [])"

definition js_field :: "string option \<Rightarrow> jsval" where
  "js_field v = (case v of Some s \<Rightarrow> JStr s | None \<Rightarrow> JNull)"

definition read_fields :: "runtime \<Rightarrow> jsval \<Rightarrow> fields" where
  "read_fields rt b =
     \<lparr>f_name = requireField rt b ''name'',
      f_address1 = requireField rt b ''address1'',
      f_address2 = or_empty (requireField rt b ''address2''),
      f_city = requireField rt b ''city'',
      f_state = requireField rt b ''state'',
      f_zip = requireField rt b ''zip'',
      f_phone = requireField rt b ''phone'',
      f_deviceType = requireField rt b ''deviceType''\<rparr>"

definition missing_fields :: "fields \<Rightarrow> string list" where
  "missing_fields fs =
     (if f_name fs = None then [''name''] else []) @
     (if f_address1 fs = None then [''address1''] else []) @
     (if f_city fs = None then [''city''] else []) @
     (if f_state fs = None then [''state''] else []) @
     (if f_zip fs = None then [''zip''] else []) @
     (if f_phone fs = None then [''phone''] else []) @
     (if f_deviceType fs = None then [''deviceType''] else [])"

definition String_or_empty :: "runtime \<Rightarrow> jsval \<Rightarrow> jsval" where
  "String_or_empty rt v = JStr (ToString rt (js_or v (JStr [])))"

definition validation_failPayload ::
  "runtime \<Rightarrow> mail_world \<Rightarrow> jsval \<Rightarrow> fields \<Rightarrow> string list \<Rightarrow> (string \<times> jsval) list" where
  "validation_failPayload rt w b fs missing =
     [(''request_id'', JStr (''mail_'' @ show_nat (date_now w))),
      (''lob_letter_id'', JStr []),
      (''source'', JStr ''Lifelinephysical-mail''),
      (''created_at_iso'', JStr (created_iso w)),
      (''customer_name'', JStr (or_empty (f_name fs))),
      (''customer_email'', String_or_empty rt (get_prop b ''email'')),
      (''customer_phone'', JStr (or_empty (f_phone fs))),
      (''from_address1'', JStr (or_empty (f_address1 fs))),
      (''from_address2'', JStr (f_address2 fs)),
      (''from_city'', JStr (or_empty (f_city fs))),
      (''from_state'', JStr (or_empty (f_state fs))),
      (''from_zip'', JStr (or_empty (f_zip fs))),
      (''device_type'', JStr (or_empty (f_deviceType fs))),
      (''device_serial'', String_or_empty rt (get_prop b ''deviceSerial'')),
      (''return_reason'', String_or_empty rt (get_prop b ''returnReason'')),
      (''weight_oz'', normalizeWeightOz_mail rt b),
      (''service_type'', JStr ''usps_ground_advantage''),
      (''tracking_number'', JStr []),
      (''label_id'', JStr []),
      (''postage_total_usd'', JNull),
      (''status'', JStr ''Exception''),
      (''status_last_checked'', JStr (checked_iso w)),
      (''delivered_at'', JNull),
      (''latest_event'', JStr (''Missing required fields: '' @ join '', '' missing))]"

definition label_failPayload ::
  "runtime \<Rightarrow> mail_world \<Rightarrow> jsval \<Rightarrow> fields \<Rightarrow> nat \<Rightarrow> (string \<times> jsval) list" where
  "label_failPayload rt w b fs label_status =
     [(''request_id'', JStr (''mail_'' @ show_nat (date_now w))),
      (''lob_letter_id'', JStr []),
      (''source'', JStr ''Lifelinephysical-mail''),
      (''created_at_iso'', JStr (created_iso w)),
      (''customer_name'', js_field (f_name fs)),
      (''customer_email'', String_or_empty rt (get_prop b ''email'')),
      (''customer_phone'', js_field (f_phone fs)),
      (''from_address1'', js_field (f_address1 fs)),
      (''from_address2'', JStr (f_address2 fs)),
      (''from_city'', js_field (f_city fs)),
      (''from_state'', js_field (f_state fs)),
      (''from_zip'', js_field (f_zip fs)),
      (''device_type'', JStr (or_empty (f_deviceType fs))),
      (''device_serial'', String_or_empty rt (get_prop b ''deviceSerial'')),
      (''return_reason'', String_or_empty rt (get_prop b ''returnReason'')),
      (''weight_oz'', normalizeWeightOz_mail rt b),
      (''service_type'', JStr ''usps_ground_advantage''),
      (''tracking_number'', JStr []),
      (''label_id'', JStr []),
      (''postage_total_usd'', JNull),
      (''status'', JStr ''Exception''),
      (''status_last_checked'', JStr (checked_iso w)),
      (''delivered_at'', JNull),
      (''latest_event'',
         JStr (''Label creation failed (Endicia). HTTP '' @ show_nat label_status))]"

definition lob_failPayload ::
  "runtime \<Rightarrow> mail_world \<Rightarrow> jsval \<Rightarrow> fields \<Rightarrow> jsval \<Rightarrow> jsval \<Rightarrow> jsval \<Rightarrow> nat
     \<Rightarrow> (string \<times> jsval) list" where
  "lob_failPayload rt w b fs labelJson trackingNumber weightOz lob_status =
     [(''request_id'', JStr (''mail_'' @ show_nat (date_now w))),
      (''lob_letter_id'', JStr []),
      (''source'', JStr ''physical-mail''),
      (''created_at_iso'', JStr (created_iso w)),
      (''customer_name'', js_field (f_name fs)),
      (''customer_email'', String_or_empty rt (get_prop b ''email'')),
      (''customer_phone'', js_field (f_phone fs)),
      (''from_address1'', js_field (f_address1 fs)),
      (''from_address2'', JStr (f_address2 fs)),
      (''from_city'', js_field (f_city fs)),
      (''from_state'', js_field (f_state fs)),
      (''from_zip'', js_field (f_zip fs)),
      (''device_type'', JStr (or_empty (f_deviceType fs))),
      (''device_serial'', String_or_empty rt (get_prop b ''deviceSerial'')),
      (''return_reason'', String_or_empty rt (get_prop b ''returnReason'')),
      (''weight_oz'', weightOz),
      (''service_type'',
         js_or (get_prop labelJson ''service_type'') (JStr ''usps_ground_advantage'')),
      (''tracking_number'', trackingNumber),
      (''label_id'', js_or (get_prop labelJson ''label_id'') (JStr [])),
      (''postage_total_usd'',
         js_nullish_or (get_prop (get_prop labelJson ''shipment_cost'') ''total_amount'') JNull),
      (''status'', JStr ''Exception''),
      (''status_last_checked'', JStr (checked_iso w)),
      (''delivered_at'', JNull),
      (''latest_event'', JStr (''Lob letter creation failed. HTTP '' @ show_nat lob_status))]"

definition sheetsPayload ::
  "runtime \<Rightarrow> mail_world \<Rightarrow> jsval \<Rightarrow> fields \<Rightarrow> jsval \<Rightarrow> jsval \<Rightarrow> jsval \<Rightarrow> jsval
     \<Rightarrow> (string \<times> jsval) list" where
  "sheetsPayload rt w b fs labelJson lobJson trackingNumber weightOz =
     [(''request_id'', get_prop lobJson ''id''),
      (''lob_letter_id'', get_prop lobJson ''id''),
      (''source'', JStr ''physical-mail''),
      (''created_at_iso'', JStr (created_iso w)),
      (''customer_name'', js_field (f_name fs)),
      (''customer_email'', String_or_empty rt (get_prop b ''email'')),
      (''customer_phone'', js_field (f_phone fs)),
      (''from_address1'', js_field (f_address1 fs)),
      (''from_address2'', JStr (f_address2 fs)),
      (''from_city'', js_field (f_city fs)),
      (''from_state'', js_field (f_state fs)),
      (''from_zip'', js_field (f_zip fs)),
      (''device_type'', JStr (or_empty (f_deviceType fs))),
      (''device_serial'', String_or_empty rt (get_prop b ''deviceSerial'')),
      (''return_reason'', String_or_empty rt (get_prop b ''returnReason'')),
      (''weight_oz'', weightOz),
      (''service_type'',
         js_or (get_prop labelJson ''service_type'') (JStr ''usps_ground_advantage'')),
      (''tracking_number'', trackingNumber),
      (''label_id'', js_or (get_prop labelJson ''label_id'') (JStr [])),
      (''postage_total_usd'',
         js_nullish_or (get_prop (get_prop labelJson ''shipment_cost'') ''total_amount'') JNull),
      (''status'', JStr ''Created''),
      (''status_last_checked'', JStr (checked_iso w)),
      (''delivered_at'', JNull),
      (''latest_event'',
         JStr (if truthy trackingNumber
               then ''Return label created; physical packet mailed.''
               else ''Return label created (no tracking number returned); physical packet mailed.''))]"

definition crashPayload :: "mail_world \<Rightarrow> string \<Rightarrow> (string \<times> jsval) list" where
  "crashPayload w e =
     [(''request_id'', JStr (''mail_'' @ show_nat (date_now w))),
      (''lob_letter_id'', JStr []),
      (''source'', JStr ''Lifelinephysical-mail''),
      (''created_at_iso'', JStr (created_iso w)),
      (''customer_name'', JStr []),
      (''customer_email'', JStr []),
      (''customer_phone'', JStr []),
      (''from_address1'', JStr []),
      (''from_address2'', JStr []),
      (''from_city'', JStr []),
      (''from_state'', JStr []),
      (''from_zip'', JStr []),
      (''device_type'', JStr []),
      (''device_serial'', JStr []),
      (''return_reason'', JStr []),
      (''weight_oz'', JNull),
      (''service_type'', JStr ''usps_ground_advantage''),
      (''tracking_number'', JStr []),
      (''label_id'', JStr []),
      (''postage_total_usd'', JNull),
      (''status'', JStr ''Exception''),
      (''status_last_checked'', JStr (checked_iso w)),
      (''delivered_at'', JNull),
      (''latest_event'', JStr (''Unhandled error: '' @ e))]"

definition env_or :: "string \<Rightarrow> string \<Rightarrow> string" where
  "env_or v d = (if v \<noteq> [] then v else d)"

definition lob_form :: "env \<Rightarrow> fields \<Rightarrow> pdf_page list \<Rightarrow> fetch_body" where
  "lob_form ev fs doc =
     FormBody
       ([(''to[name]'', or_empty (f_name fs)),
         (''to[address_line1]'', or_empty (f_address1 fs))] @
        (if f_address2 fs \<noteq> [] then [(''to[address_line2]'', f_address2 fs)] else []) @
        [(''to[address_city]'', or_empty (f_city fs)),
         (''to[address_state]'', or_empty (f_state fs)),
         (''to[address_zip]'', or_empty (f_zip fs)),
         (''from[name]'', env_or (LOB_FROM_NAME ev) ''Connect America Returns''),
         (''from[address_line1]'', env_or (LOB_FROM_ADDRESS1 ev) ''3 Bala Plaza West''),
         (''from[address_city]'', env_or (LOB_FROM_CITY ev) ''Bala Cynwyd''),
         (''from[address_state]'', env_or (LOB_FROM_STATE ev) ''PA''),
         (''from[address_zip]'', env_or (LOB_FROM_ZIP ev) ''19004''),
         (''color'', ''true''),
         (''use_type'', ''operational''),
         (''file'', ''return-label-and-instructions.pdf'')])
       doc"

text \<open>
  The body of the \<open>try\<close> block, in the order of the source. The result is the response
  sent, or \<open>Inl e\<close> when an exception \<open>e\<close> escapes to the \<open>catch\<close>; the trace
  holds what had happened by then.
\<close>

definition submit_mail ::
  "runtime \<Rightarrow> env \<Rightarrow> mail_world \<Rightarrow> jsval \<Rightarrow> fields \<Rightarrow> jsval \<Rightarrow> event list
     \<Rightarrow> (string + response) \<times> event list" where
  "submit_mail rt ev w b fs labelJson tr =
     (let trackingNumber =
            js_or (js_or (get_prop labelJson ''trackingNumber'')
                         (get_prop labelJson ''tracking_number'')) (JStr []);
          weightOz = normalizeWeightOz_mail rt b
      in case buildInstructionsPlusLabelPdf (pdf_io w) of
           Inl e \<Rightarrow> (Inl e, tr)
         | Inr combinedPdfBuffer \<Rightarrow>
             let tr1 = tr @ [Fetch ''https://api.lob.com/v1/letters''
                               (lob_form ev fs combinedPdfBuffer)]
             in (case lob_fetch w of
                  FetchThrows e \<Rightarrow> (Inl e, tr1)
                | FetchResp lob_status j t \<Rightarrow>
                    let lobJson = json_or_null j in
                    if \<not> resp_ok lob_status \<or> \<not> truthy (get_prop lobJson ''id'') then
                      let (logged, tr2) =
                            postToSheets (SHEETS_WEBHOOK_URL ev) (sheets_fetch w)
                              (lob_failPayload rt w b fs labelJson trackingNumber weightOz
                                 lob_status)
                      in (Inr (sendJson 400
                                [(''ok'', JBool False),
                                 (''error'', JStr ''Lob letter creation failed''),
                                 (''httpStatus'', JNum (Fin (of_nat lob_status))),
                                 (''details'', lobJson)]),
                          tr1 @ tr2)
                    else
                      let (sheetsLogged, tr2) =
                            postToSheets (SHEETS_WEBHOOK_URL ev) (sheets_fetch w)
                              (sheetsPayload rt w b fs labelJson lobJson trackingNumber weightOz)
                      in (Inr (sendJson 200
                                [(''ok'', JBool True),
                                 (''uspsTrackingNumber'', js_or trackingNumber JNull),
                                 (''lobLetterId'', get_prop lobJson ''id''),
                                 (''lobStatus'', js_or (get_prop lobJson ''status'') JNull),
                                 (''sheetsLogged'', sheetsLogged)]),
                          tr1 @ tr2)))"

definition request_label ::
  "runtime \<Rightarrow> env \<Rightarrow> mail_world \<Rightarrow> request \<Rightarrow> jsval \<Rightarrow> fields
     \<Rightarrow> (string + response) \<times> event list" where
  "request_label rt ev w req b fs =
     (let url = getBaseUrl req @ ''/api/create-label'';
          (labelResp, served) = label_endpoint w url b;
          tr = Fetch url (JsonBody b) # served
      in case labelResp of
           FetchThrows e \<Rightarrow> (Inl e, tr)
         | FetchResp label_status j t \<Rightarrow>
             let labelJson = json_or_null j in
             if \<not> resp_ok label_status \<or> \<not> truthy (get_prop labelJson ''ok'')
                \<or> \<not> truthy (get_prop labelJson ''labelData'') then
               let (logged, tr2) =
                     postToSheets (SHEETS_WEBHOOK_URL ev) (sheets_fetch w)
                       (label_failPayload rt w b fs label_status)
               in (Inr (sendJson 400
                         [(''ok'', JBool False),
                          (''error'', JStr ''Label creation failed''),
                          (''httpStatus'', JNum (Fin (of_nat label_status))),
                          (''details'', labelJson)]),
                   tr @ tr2)
             else submit_mail rt ev w b fs labelJson tr)"

definition handler_try ::
  "runtime \<Rightarrow> env \<Rightarrow> mail_world \<Rightarrow> request \<Rightarrow> (string + response) \<times> event list" where
  "handler_try rt ev w req =
     (if req_method req \<noteq> ''POST'' then
        (Inr (sendJson 405 [(''ok'', JBool False), (''error'', JStr ''Method Not Allowed'')]), [])
      else
        let creds = parseBasicAuth rt req;
            expectedUser = MAIL_USER ev;
            expectedPass = MAIL_PASS ev
        in
        if expectedUser = [] \<or> expectedPass = [] then
          (Inr (sendJson 500 [(''ok'', JBool False),
                              (''error'', JStr ''Missing MAIL_USER/MAIL_PASS env vars'')]), [])
        else if (case creds of
                   None \<Rightarrow> True
                 | Some (user, pass) \<Rightarrow> user \<noteq> expectedUser \<or> pass \<noteq> expectedPass) then
          (Inr unauthorized, [])
        else
          (case parse_body rt (req_body req) of
             Inl e \<Rightarrow> (Inl e, [])
           | Inr b \<Rightarrow>
               if LOB_API_KEY ev = [] then
                 (Inr (sendJson 500 [(''ok'', JBool False),
                                     (''error'', JStr ''Missing LOB_API_KEY env var'')]), [])
               else
                 let fs = read_fields rt b;
                     missing = missing_fields fs
                 in
                 if missing \<noteq> [] then
                   (if nullish b then (Inl (TypeError_null ''email''), [])
                    else
                      let (logged, tr) =
                            postToSheets (SHEETS_WEBHOOK_URL ev) (sheets_fetch w)
                              (validation_failPayload rt w b fs missing)
                      in (Inr (sendJson 400
                                [(''ok'', JBool False),
                                 (''error'',
                                    JStr (''Missing required fields: '' @ join '', '' missing))]),
                          tr))
                 else request_label rt ev w req b fs))"

text \<open>The handler: the \<open>try\<close> block, and the \<open>catch\<close> that logs the crash and answers 500.\<close>

definition handler :: "runtime \<Rightarrow> env \<Rightarrow> mail_world \<Rightarrow> request \<Rightarrow> response \<times> event list" where
  "handler rt ev w req =
     (case handler_try rt ev w req of
        (Inr res, tr) \<Rightarrow> (res, tr)
      | (Inl e, tr) \<Rightarrow>
          let (logged, tr2) =
                postToSheets (SHEETS_WEBHOOK_URL ev) (sheets_fetch w) (crashPayload w e)
          in (sendJson 500 [(''ok'', JBool False), (''error'', JStr e)], tr @ tr2))"

section \<open>api/create-label.js\<close>

text \<open>
  What the clock, the random source and the network answer during one call of the label
  endpoint: the UUID, \<open>todayYYYYMMDD()\<close>, \<open>new Date().toISOString()\<close>, the token
  endpoint, the carrier's label endpoint, the label document behind a returned link (an
  error, or its bytes in base64) and the audit webhook.
\<close>

record create_world =
  uuid :: string
  ship_date :: string
  now_iso :: string
  token_fetch :: fetch_result
  carrier_fetch :: fetch_result
  href_fetch :: "string + string"
  create_sheets_fetch :: fetch_result

definition strip_slashes :: "string \<Rightarrow> string" where
  "strip_slashes s = rev (dropWhile (\<lambda>c. c = CHR ''/'') (rev s))"

definition SIGNIN_BASE :: "env \<Rightarrow> string" where
  "SIGNIN_BASE ev = env_or (SERA_SIGNIN_BASE ev) ''https://signin.stampsendicia.com''"

definition API_BASE :: "env \<Rightarrow> string" where
  "API_BASE ev = env_or (SERA_API_BASE ev) ''https://api.stampsendicia.com/sera''"

definition RETURN_TO :: jsval where
  "RETURN_TO =
     JObj [(''name'', JStr ''Return Warehouse''),
           (''company_name'', JStr ''Connect America''),
           (''address_line1'', JStr ''816 Parkway Drive''),
           (''address_line2'', JStr []),
           (''city'', JStr ''Broomall''),
           (''state_province'', JStr ''PA''),
           (''postal_code'', JStr ''19008''),
           (''country_code'', JStr ''US''),
           (''phone'', JStr ''8002862622''),
           (''email'', JStr [])]"

text \<open>
  \<open>getAccessToken\<close>: \<open>Inl\<close> is the exception it throws (the rejection of \<open>fetch\<close>,
  or its own \<open>Error\<close>), \<open>Inr\<close> the token it returns.
\<close>

definition getAccessToken ::
  "runtime \<Rightarrow> env \<Rightarrow> fetch_result \<Rightarrow> (string + jsval) \<times> event list" where
  "getAccessToken rt ev net =
     (let url = strip_slashes (SIGNIN_BASE ev) @ ''/oauth/token'';
          tr = [Fetch url
                  (JsonBody (JObj [(''grant_type'', JStr ''refresh_token''),
                                   (''client_id'', JStr (SERA_CLIENT_ID ev)),
                                   (''client_secret'', JStr (SERA_CLIENT_SECRET ev)),
                                   (''refresh_token'', JStr (SERA_REFRESH_TOKEN ev))]))]
      in case net of
           FetchThrows e \<Rightarrow> (Inl e, tr)
         | FetchResp st j t \<Rightarrow>
             let data = json_or_null j in
             if \<not> resp_ok st \<or> \<not> truthy (get_prop data ''access_token'') then
               (Inl (''Error: Token refresh failed. HTTP '' @ show_nat st @ '' ''
                       @ json_stringify rt data), tr)
             else (Inr (get_prop data ''access_token''), tr))"

text \<open>\<open>(v || "").trim()\<close>: a truthy value that is not a string has no \<open>trim\<close>.\<close>

definition or_empty_trim :: "jsval \<Rightarrow> string + string" where
  "or_empty_trim v =
     (case js_or v (JStr []) of
        JStr s \<Rightarrow> Inr (trim s)
      | _ \<Rightarrow> Inl ''TypeError: (intermediate value).trim is not a function'')"

record from_address =
  a_name :: string
  a_address_line1 :: string
  a_address_line2 :: string
  a_city :: string
  a_state_province :: string
  a_postal_code :: string
  a_phone :: string
  a_email :: string

definition customerFromAddress :: "jsval \<Rightarrow> string + from_address" where
  "customerFromAddress b =
     (case or_empty_trim (get_prop b ''name'') of Inl e \<Rightarrow> Inl e | Inr v_name \<Rightarrow>
     (case or_empty_trim (get_prop b ''address1'') of Inl e \<Rightarrow> Inl e | Inr v_address1 \<Rightarrow>
     (case or_empty_trim (get_prop b ''address2'') of Inl e \<Rightarrow> Inl e | Inr v_address2 \<Rightarrow>
     (case or_empty_trim (get_prop b ''city'') of Inl e \<Rightarrow> Inl e | Inr v_city \<Rightarrow>
     (case or_empty_trim (get_prop b ''state'') of Inl e \<Rightarrow> Inl e | Inr v_state \<Rightarrow>
     (case or_empty_trim (get_prop b ''zip'') of Inl e \<Rightarrow> Inl e | Inr v_zip \<Rightarrow>
     (case or_empty_trim (get_prop b ''phone'') of Inl e \<Rightarrow> Inl e | Inr v_phone \<Rightarrow>
     (case or_empty_trim (get_prop b ''email'') of Inl e \<Rightarrow> Inl e | Inr v_email \<Rightarrow>
        Inr \<lparr>a_name = v_name, a_address_line1 = v_address1, a_address_line2 = v_address2,
             a_city = v_city, a_state_province = v_state, a_postal_code = v_zip,
             a_phone = v_phone, a_email = v_email\<rparr>))))))))"

definition address_json :: "from_address \<Rightarrow> jsval" where
  "address_json a =
     JObj [(''name'', JStr (a_name a)),
           (''company_name'', JStr []),
           (''address_line1'', JStr (a_address_line1 a)),
           (''address_line2'', JStr (a_address_line2 a)),
           (''city'', JStr (a_city a)),
           (''state_province'', JStr (a_state_province a)),
           (''postal_code'', JStr (a_postal_code a)),
           (''country_code'', JStr ''US''),
           (''phone'', JStr (a_phone a)),
           (''email'', JStr (a_email a))]"

definition required :: "string list" where
  "required = [''name'', ''address1'', ''city'', ''state'', ''zip'', ''phone'', ''deviceType'']"

definition missing_create :: "runtime \<Rightarrow> jsval \<Rightarrow> string list" where
  "missing_create rt b =
     filter (\<lambda>k. trim (ToString rt (js_or (get_prop b k) (JStr []))) = []) required"

text \<open>\<open>v?.[0]\<close>: the first element of an array or string, the property \<open>"0"\<close> of an object.\<close>

fun first_elem :: "jsval \<Rightarrow> jsval" where
  "first_elem (JArr (v # vs)) = v"
| "first_elem (JStr (c # cs)) = JStr [c]"
| "first_elem (JObj kvs) = get_prop (JObj kvs) ''0''"
| "first_elem _ = JUndefined"

definition label_payload :: "create_world \<Rightarrow> from_address \<Rightarrow> jsnum \<Rightarrow> string \<Rightarrow> string \<Rightarrow> jsval" where
  "label_payload cw a weightOz reference1 reference2 =
     JObj [(''from_address'', address_json a),
           (''ship_from_address'', address_json a),
           (''sender_address'', address_json a),
           (''to_address'', RETURN_TO),
           (''return_address'', RETURN_TO),
           (''service_type'', JStr ''usps_ground_advantage''),
           (''ship_date'', JStr (ship_date cw)),
           (''is_return_label'', JBool True),
           (''package'', JObj [(''packaging_type'', JStr ''package''),
                               (''weight'', JNum weightOz),
                               (''weight_unit'', JStr ''ounce'')]),
           (''advanced_options'', JObj [(''is_pay_on_use'', JBool True)]),
           (''label_options'', JObj [(''label_size'', JStr ''4x6''),
                                     (''label_format'', JStr ''pdf''),
                                     (''label_output_type'', JStr ''base64'')]),
           (''references'', JObj [(''reference1'', JStr reference1),
                                  (''reference2'', JStr reference2)]),
           (''is_test_label'', JBool False)]"

definition sheetsPayload_create ::
  "runtime \<Rightarrow> create_world \<Rightarrow> jsval \<Rightarrow> from_address \<Rightarrow> jsnum \<Rightarrow> jsval \<Rightarrow> jsval
     \<Rightarrow> (string \<times> jsval) list" where
  "sheetsPayload_create rt cw b a weightOz labelData trackingNumber =
     [(''request_id'', JStr (uuid cw)),
      (''source'', JStr ''Connect Print''),
      (''created_at_iso'', JStr (now_iso cw)),
      (''customer_name'', JStr (a_name a)),
      (''customer_email'', JStr (a_email a)),
      (''customer_phone'', JStr (a_phone a)),
      (''from_address1'', JStr (a_address_line1 a)),
      (''from_address2'', JStr (a_address_line2 a)),
      (''from_city'', JStr (a_city a)),
      (''from_state'', JStr (a_state_province a)),
      (''from_zip'', JStr (a_postal_code a)),
      (''device_type'', String_or_empty rt (get_prop b ''deviceType'')),
      (''device_serial'', String_or_empty rt (get_prop b ''deviceSerial'')),
      (''return_reason'', String_or_empty rt (get_prop b ''returnReason'')),
      (''weight_oz'', JNum weightOz),
      (''service_type'',
         js_or (get_prop labelData ''service_type'') (JStr ''usps_ground_advantage'')),
      (''tracking_number'', trackingNumber),
      (''label_id'', js_or (get_prop labelData ''label_id'') (JStr [])),
      (''postage_total_usd'',
         js_nullish_or (get_prop (get_prop labelData ''shipment_cost'') ''total_amount'') JNull),
      (''status'', JStr ''Created'')]"

text \<open>The part of the \<open>try\<close> block after the carrier has answered with a 2xx status.\<close>

definition deliver_label ::
  "runtime \<Rightarrow> env \<Rightarrow> create_world \<Rightarrow> jsval \<Rightarrow> bool \<Rightarrow> from_address \<Rightarrow> jsnum \<Rightarrow> jsval
     \<Rightarrow> event list \<Rightarrow> (string + response) \<times> event list" where
  "deliver_label rt ev cw b skipLogging a weightOz labelData tr =
     (if nullish labelData then (Inl (TypeError_null ''tracking_number''), tr)
      else
        let trackingNumber = js_or (get_prop labelData ''tracking_number'') (JStr []);
            maybeBase64 =
              js_or (js_or (get_prop (first_elem (get_prop labelData ''labels'')) ''label_data'')
                           (get_prop labelData ''label_data'')) JNull;
            (sheetsLogged, tr2) =
              (if \<not> skipLogging then
                 postToSheets (SHEETS_WEBHOOK_URL ev) (create_sheets_fetch cw)
                   (sheetsPayload_create rt cw b a weightOz labelData trackingNumber)
               else (JNull, []))
        in
        if truthy maybeBase64 then
          (Inr (sendJson 200
                 [(''ok'', JBool True),
                  (''trackingNumber'', trackingNumber),
                  (''filename'', JStr ''usps-pay-on-use-return-label.pdf''),
                  (''mimeType'', JStr ''application/pdf''),
                  (''labelData'', maybeBase64),
                  (''sheetsLogged'', sheetsLogged)]),
           tr @ tr2)
        else
          let labelHref =
                js_or (get_prop (first_elem (get_prop labelData ''labels'')) ''href'') (JStr [])
          in
          if truthy labelHref then
            (case href_fetch cw of
               Inl e \<Rightarrow> (Inl e, tr @ tr2 @ [Fetch (ToString rt labelHref) NoBody])
             | Inr base64 \<Rightarrow>
                 (Inr (sendJson 200
                        [(''ok'', JBool True),
                         (''trackingNumber'', trackingNumber),
                         (''filename'', JStr ''usps-pay-on-use-return-label.pdf''),
                         (''mimeType'', JStr ''application/pdf''),
                         (''labelData'', JStr base64),
                         (''sheetsLogged'', sheetsLogged)]),
                  tr @ tr2 @ [Fetch (ToString rt labelHref) NoBody]))
          else
            (Inr (sendJson 500
                   [(''ok'', JBool False),
                    (''error'',
                       JStr ''Label created but no label data returned (unexpected response shape).''),
                    (''raw'', labelData),
                    (''sheetsLogged'', sheetsLogged)]),
             tr @ tr2))"

definition issue_label ::
  "runtime \<Rightarrow> env \<Rightarrow> create_world \<Rightarrow> jsval \<Rightarrow> bool \<Rightarrow> from_address
     \<Rightarrow> (string + response) \<times> event list" where
  "issue_label rt ev cw b skipLogging a =
     (case normalizeWeightOz_create rt b of
        Inl e \<Rightarrow> (Inl e, [])
      | Inr weightOz \<Rightarrow>
          (case getAccessToken rt ev (token_fetch cw) of
             (Inl e, tr) \<Rightarrow> (Inl e, tr)
           | (Inr accessToken, tr) \<Rightarrow>
               (case or_empty_trim (get_prop b ''deviceSerial'') of
                  Inl e \<Rightarrow> (Inl e, tr)
                | Inr reference1 \<Rightarrow>
                    (case or_empty_trim (get_prop b ''returnReason'') of
                       Inl e \<Rightarrow> (Inl e, tr)
                     | Inr reference2 \<Rightarrow>
                         let tr1 = tr @ [Fetch (strip_slashes (API_BASE ev) @ ''/v1/labels'')
                                           (JsonBody (label_payload cw a weightOz
                                                        reference1 reference2))]
                         in
                         (case carrier_fetch cw of
                            FetchThrows e \<Rightarrow> (Inl e, tr1)
                          | FetchResp label_status j t \<Rightarrow>
                              let labelData = json_or_null j in
                              if \<not> resp_ok label_status then
                                (Inr (sendJson label_status
                                       [(''ok'', JBool False),
                                        (''error'', JStr ''Label creation failed''),
                                        (''httpStatus'', JNum (Fin (of_nat label_status))),
                                        (''details'', labelData)]),
                                 tr1)
                              else deliver_label rt ev cw b skipLogging a weightOz
                                     labelData tr1)))))"

definition create_label_try ::
  "runtime \<Rightarrow> env \<Rightarrow> create_world \<Rightarrow> request \<Rightarrow> (string + response) \<times> event list" where
  "create_label_try rt ev cw req =
     (if req_method req \<noteq> ''POST'' then
        (Inr (sendJson 405 [(''ok'', JBool False), (''error'', JStr ''Method Not Allowed'')]), [])
      else if SERA_CLIENT_ID ev = [] \<or> SERA_CLIENT_SECRET ev = [] \<or> SERA_REFRESH_TOKEN ev = []
      then
        (Inr (sendJson 500
               [(''ok'', JBool False),
                (''error'',
                   JStr ''Missing env vars: SERA_CLIENT_ID, SERA_CLIENT_SECRET, SERA_REFRESH_TOKEN.'')]),
         [])
      else
        (case parse_body rt (req_body req) of
           Inl e \<Rightarrow> (Inl e, [])
         | Inr b \<Rightarrow>
             let skipLogging = (get_prop b ''skipLogging'' = JBool True) in
             if nullish b then (Inl (TypeError_null ''name''), [])
             else
               let missing = missing_create rt b in
               if missing \<noteq> [] then
                 (Inr (sendJson 400
                        [(''ok'', JBool False),
                         (''error'',
                            JStr (''Missing required fields: '' @ join '', '' missing))]),
                  [])
               else
                 (case customerFromAddress b of
                    Inl e \<Rightarrow> (Inl e, [])
                  | Inr a \<Rightarrow>
                      if a_name a = [] \<or> a_address_line1 a = [] \<or> a_city a = []
                         \<or> a_state_province a = [] \<or> a_postal_code a = [] then
                        (Inr (sendJson 400
                               [(''ok'', JBool False),
                                (''error'',
                                   JStr ''From address incomplete (name, address, city, state, zip required).'')]),
                         [])
                      else issue_label rt ev cw b skipLogging a)))"

definition create_label ::
  "runtime \<Rightarrow> env \<Rightarrow> create_world \<Rightarrow> request \<Rightarrow> response \<times> event list" where
  "create_label rt ev cw req =
     (case create_label_try rt ev cw req of
        (Inr res, tr) \<Rightarrow> (res, tr)
      | (Inl e, tr) \<Rightarrow> (sendJson 500 [(''ok'', JBool False), (''error'', JStr e)], tr))"

section \<open>The two endpoints in one deployment\<close>

text \<open>
  \<open>JSON.parse(JSON.stringify(v))\<close>: what a value is after it has crossed the network.
\<close>

fun json_roundtrip :: "jsval \<Rightarrow> jsval" where
  "json_roundtrip (JNum (Fin r)) = JNum (Fin r)"
| "json_roundtrip (JNum n) = JNull"
| "json_roundtrip (JArr xs) =
     JArr (map (\<lambda>e. if e = JUndefined then JNull else json_roundtrip e) xs)"
| "json_roundtrip (JObj kvs) =
     JObj (map (\<lambda>kv. (fst kv, json_roundtrip (snd kv)))
             (filter (\<lambda>kv. snd kv \<noteq> JUndefined) kvs))"
| "json_roundtrip v = v"

text \<open>
  The label endpoint that api/mail-label.js reaches at \<open>/api/create-label\<close>: the handler
  of api/create-label.js, run on the forwarded body.
\<close>

definition create_label_endpoint ::
  "runtime \<Rightarrow> env \<Rightarrow> create_world \<Rightarrow> string \<Rightarrow> jsval \<Rightarrow> fetch_result \<times> event list" where
  "create_label_endpoint rt ev cw url b =
     (let (res, tr) =
            create_label rt ev cw
              \<lparr>req_method = ''POST'',
               req_headers = [(''content-type'', ''application/json'')],
               req_body = json_roundtrip b\<rparr>
      in (case res_body res of
            Json obj \<Rightarrow>
              FetchResp (res_status res) (Some (json_roundtrip (JObj obj)))
                (Some (json_stringify rt (JObj obj)))
          | Text t \<Rightarrow> FetchResp (res_status res) None (Some t),
          tr))"

section \<open>The other logging draft of api/mail-label.js\<close>

text \<open>
  The repository holds a second version of the handler with audit logging. It differs in
  the source tag, in \<open>postToSheets\<close>, in what it copies from the label response, in
  returning \<open>sheetsLogged\<close> on failures, in having no audit record in its \<open>catch\<close>,
  and in the body it forwards to the label endpoint: \<open>{ ...body, skipLogging: true }\<close>.
\<close>

definition SOURCE :: string where
  "SOURCE = ''CAphysical-mail''"

definition parseBasicAuth_draft :: "runtime \<Rightarrow> request \<Rightarrow> (string \<times> string) option" where
  "parseBasicAuth_draft rt req =
     (let h = (case header req ''authorization'' of
                 Some v \<Rightarrow> if v \<noteq> [] then Some v else header req ''Authorization''
               | None \<Rightarrow> header req ''Authorization'')
      in case h of
           None \<Rightarrow> None
         | Some v \<Rightarrow>
             if v = [] \<or> take 6 v \<noteq> ''Basic '' then None
             else
               let decoded = b64_utf8 rt (drop 6 v)
               in if CHR '':'' \<notin> set decoded then None
                  else Some (takeWhile (\<lambda>c. c \<noteq> CHR '':'') decoded,
                             tl (dropWhile (\<lambda>c. c \<noteq> CHR '':'') decoded)))"

text \<open>
  \<open>{ ...v, k: x }\<close>: the own properties of an object with \<open>k\<close> set (in place when
  present, else at the end); the characters of a string and the elements of an array
  under their indices; nothing of any other value.
\<close>

fun set_key :: "(string \<times> jsval) list \<Rightarrow> string \<Rightarrow> jsval \<Rightarrow> (string \<times> jsval) list" where
  "set_key [] k x = [(k, x)]"
| "set_key ((k', v) # kvs) k x = (if k' = k then (k, x) # kvs else (k', v) # set_key kvs k x)"

fun spread_with :: "jsval \<Rightarrow> string \<Rightarrow> jsval \<Rightarrow> jsval" where
  "spread_with (JObj kvs) k x = JObj (set_key kvs k x)"
| "spread_with (JArr vs) k x =
     JObj (set_key (map (\<lambda>i. (show_nat i, vs ! i)) [0..<length vs]) k x)"
| "spread_with (JStr cs) k x =
     JObj (set_key (map (\<lambda>i. (show_nat i, JStr [cs ! i])) [0..<length cs]) k x)"
| "spread_with _ k x = JObj [(k, x)]"

definition validation_failPayload_draft ::
  "runtime \<Rightarrow> mail_world \<Rightarrow> jsval \<Rightarrow> fields \<Rightarrow> string list \<Rightarrow> (string \<times> jsval) list" where
  "validation_failPayload_draft rt w b fs missing =
     [(''request_id'', JStr (''mail_'' @ show_nat (date_now w))),
      (''lob_letter_id'', JStr []),
      (''source'', JStr SOURCE),
      (''created_at_iso'', JStr (created_iso w)),
      (''customer_name'', JStr (or_empty (f_name fs))),
      (''customer_email'', String_or_empty rt (get_prop b ''email'')),
      (''customer_phone'', JStr (or_empty (f_phone fs))),
      (''from_address1'', JStr (or_empty (f_address1 fs))),
      (''from_address2'', JStr (f_address2 fs)),
      (''from_city'', JStr (or_empty (f_city fs))),
      (''from_state'', JStr (or_empty (f_state fs))),
      (''from_zip'', JStr (or_empty (f_zip fs))),
      (''device_type'', JStr (or_empty (f_deviceType fs))),
      (''device_serial'', String_or_empty rt (get_prop b ''deviceSerial'')),
      (''return_reason'', String_or_empty rt (get_prop b ''returnReason'')),
      (''weight_oz'', normalizeWeightOz_mail rt b),
      (''service_type'', JStr ''usps_ground_advantage''),
      (''tracking_number'', JStr []),
      (''label_id'', JStr []),
      (''postage_total_usd'', JNull),
      (''status'', JStr ''Exception''),
      (''status_last_checked'', JStr (checked_iso w)),
      (''delivered_at'', JNull),
      (''latest_event'', JStr (''Missing required fields: '' @ join '', '' missing))]"

definition label_failPayload_draft ::
  "runtime \<Rightarrow> mail_world \<Rightarrow> jsval \<Rightarrow> fields \<Rightarrow> nat \<Rightarrow> (string \<times> jsval) list" where
  "label_failPayload_draft rt w b fs label_status =
     [(''request_id'', JStr (''mail_'' @ show_nat (date_now w))),
      (''lob_letter_id'', JStr []),
      (''source'', JStr SOURCE),
      (''created_at_iso'', JStr (created_iso w)),
      (''customer_name'', js_field (f_name fs)),
      (''customer_email'', String_or_empty rt (get_prop b ''email'')),
      (''customer_phone'', js_field (f_phone fs)),
      (''from_address1'', js_field (f_address1 fs)),
      (''from_address2'', JStr (f_address2 fs)),
      (''from_city'', js_field (f_city fs)),
      (''from_state'', js_field (f_state fs)),
      (''from_zip'', js_field (f_zip fs)),
      (''device_type'', JStr (or_empty (f_deviceType fs))),
      (''device_serial'', String_or_empty rt (get_prop b ''deviceSerial'')),
      (''return_reason'', String_or_empty rt (get_prop b ''returnReason'')),
      (''weight_oz'', normalizeWeightOz_mail rt b),
      (''service_type'', JStr ''usps_ground_advantage''),
      (''tracking_number'', JStr []),
      (''label_id'', JStr []),
      (''postage_total_usd'', JNull),
      (''status'', JStr ''Exception''),
      (''status_last_checked'', JStr (checked_iso w)),
      (''delivered_at'', JNull),
      (''latest_event'',
         JStr (''Label creation failed (Endicia). HTTP '' @ show_nat label_status))]"

definition lob_failPayload_draft ::
  "runtime \<Rightarrow> mail_world \<Rightarrow> jsval \<Rightarrow> fields \<Rightarrow> jsval \<Rightarrow> jsval \<Rightarrow> nat
     \<Rightarrow> (string \<times> jsval) list" where
  "lob_failPayload_draft rt w b fs trackingNumber weightOz lob_status =
     [(''request_id'', JStr (''mail_'' @ show_nat (date_now w))),
      (''lob_letter_id'', JStr []),
      (''source'', JStr SOURCE),
      (''created_at_iso'', JStr (created_iso w)),
      (''customer_name'', js_field (f_name fs)),
      (''customer_email'', String_or_empty rt (get_prop b ''email'')),
      (''customer_phone'', js_field (f_phone fs)),
      (''from_address1'', js_field (f_address1 fs)),
      (''from_address2'', JStr (f_address2 fs)),
      (''from_city'', js_field (f_city fs)),
      (''from_state'', js_field (f_state fs)),
      (''from_zip'', js_field (f_zip fs)),
      (''device_type'', JStr (or_empty (f_deviceType fs))),
      (''device_serial'', String_or_empty rt (get_prop b ''deviceSerial'')),
      (''return_reason'', String_or_empty rt (get_prop b ''returnReason'')),
      (''weight_oz'', weightOz),
      (''service_type'', JStr ''usps_ground_advantage''),
      (''tracking_number'', trackingNumber),
      (''label_id'', JStr []),
      (''postage_total_usd'', JNull),
      (''status'', JStr ''Exception''),
      (''status_last_checked'', JStr (checked_iso w)),
      (''delivered_at'', JNull),
      (''latest_event'', JStr (''Lob letter creation failed. HTTP '' @ show_nat lob_status))]"

definition sheetsPayload_draft ::
  "runtime \<Rightarrow> mail_world \<Rightarrow> jsval \<Rightarrow> fields \<Rightarrow> jsval \<Rightarrow> jsval \<Rightarrow> jsval
     \<Rightarrow> (string \<times> jsval) list" where
  "sheetsPayload_draft rt w b fs lobJson trackingNumber weightOz =
     [(''request_id'', get_prop lobJson ''id''),
      (''lob_letter_id'', get_prop lobJson ''id''),
      (''source'', JStr SOURCE),
      (''created_at_iso'', JStr (created_iso w)),
      (''customer_name'', js_field (f_name fs)),
      (''customer_email'', String_or_empty rt (get_prop b ''email'')),
      (''customer_phone'', js_field (f_phone fs)),
      (''from_address1'', js_field (f_address1 fs)),
      (''from_address2'', JStr (f_address2 fs)),
      (''from_city'', js_field (f_city fs)),
      (''from_state'', js_field (f_state fs)),
      (''from_zip'', js_field (f_zip fs)),
      (''device_type'', JStr (or_empty (f_deviceType fs))),
      (''device_serial'', String_or_empty rt (get_prop b ''deviceSerial'')),
      (''return_reason'', String_or_empty rt (get_prop b ''returnReason'')),
      (''weight_oz'', weightOz),
      (''service_type'', JStr ''usps_ground_advantage''),
      (''tracking_number'', trackingNumber),
      (''label_id'', JStr []),
      (''postage_total_usd'', JNull),
      (''status'', JStr ''Created''),
      (''status_last_checked'', JStr (checked_iso w)),
      (''delivered_at'', JNull),
      (''latest_event'', JStr ''Return label created; physical packet mailed.'')]"

definition lob_form_draft :: "env \<Rightarrow> fields \<Rightarrow> pdf_page list \<Rightarrow> fetch_body" where
  "lob_form_draft ev fs doc =
     FormBody
       ([(''to[name]'', or_empty (f_name fs)),
         (''to[address_line1]'', or_empty (f_address1 fs))] @
        (if f_address2 fs \<noteq> [] then [(''to[address_line2]'', f_address2 fs)] else []) @
        [(''to[address_city]'', or_empty (f_city fs)),
         (''to[address_state]'', or_empty (f_state fs)),
         (''to[address_zip]'', or_empty (f_zip fs)),
         (''from[name]'', env_or (LOB_FROM_NAME ev) ''Connect America Returns''),
         (''from[address_line1]'', env_or (LOB_FROM_ADDRESS1 ev) ''3 Bala Plaza West''),
         (''from[address_city]'', env_or (LOB_FROM_CITY ev) ''Bala Cynwyd''),
         (''from[address_state]'', env_or (LOB_FROM_STATE ev) ''PA''),
         (''from[address_zip]'', env_or (LOB_FROM_ZIP ev) ''19004''),
         (''color'', ''true''),
         (''use_type'', ''operational''),
         (''file'', ''return-label.pdf'')])
       doc"

definition submit_mail_draft ::
  "runtime \<Rightarrow> env \<Rightarrow> mail_world \<Rightarrow> jsval \<Rightarrow> fields \<Rightarrow> jsval \<Rightarrow> event list
     \<Rightarrow> (string + response) \<times> event list" where
  "submit_mail_draft rt ev w b fs labelJson tr =
     (let trackingNumber =
            js_or (js_or (get_prop labelJson ''trackingNumber'')
                         (get_prop labelJson ''tracking_number'')) (JStr []);
          weightOz = normalizeWeightOz_mail rt b
      in case buildInstructionsPlusLabelPdf (pdf_io w) of
           Inl e \<Rightarrow> (Inl e, tr)
         | Inr combinedPdfBuffer \<Rightarrow>
             let tr1 = tr @ [Fetch ''https://api.lob.com/v1/letters''
                               (lob_form_draft ev fs combinedPdfBuffer)]
             in (case lob_fetch w of
                  FetchThrows e \<Rightarrow> (Inl e, tr1)
                | FetchResp lob_status j t \<Rightarrow>
                    let lobJson = json_or_null j in
                    if \<not> resp_ok lob_status \<or> \<not> truthy (get_prop lobJson ''id'') then
                      let (sheetsLogged, tr2) =
                            postToSheets_draft (SHEETS_WEBHOOK_URL ev) (sheets_fetch w)
                              (lob_failPayload_draft rt w b fs trackingNumber weightOz
                                 lob_status)
                      in (Inr (sendJson 400
                                [(''ok'', JBool False),
                                 (''error'', JStr ''Lob letter creation failed''),
                                 (''details'', lobJson),
                                 (''sheetsLogged'', sheetsLogged)]),
                          tr1 @ tr2)
                    else
                      let (sheetsLogged, tr2) =
                            postToSheets_draft (SHEETS_WEBHOOK_URL ev) (sheets_fetch w)
                              (sheetsPayload_draft rt w b fs lobJson trackingNumber weightOz)
                      in (Inr (sendJson 200
                                [(''ok'', JBool True),
                                 (''uspsTrackingNumber'', js_or trackingNumber JNull),
                                 (''lobLetterId'', get_prop lobJson ''id''),
                                 (''lobStatus'', js_or (get_prop lobJson ''status'') JNull),
                                 (''sheetsLogged'', sheetsLogged)]),
                          tr1 @ tr2)))"

definition request_label_draft ::
  "runtime \<Rightarrow> env \<Rightarrow> mail_world \<Rightarrow> request \<Rightarrow> jsval \<Rightarrow> fields
     \<Rightarrow> (string + response) \<times> event list" where
  "request_label_draft rt ev w req b fs =
     (let url = getBaseUrl req @ ''/api/create-label'';
          forwarded = spread_with b ''skipLogging'' (JBool True);
          (labelResp, served) = label_endpoint w url forwarded;
          tr = Fetch url (JsonBody forwarded) # served
      in case labelResp of
           FetchThrows e \<Rightarrow> (Inl e, tr)
         | FetchResp label_status j t \<Rightarrow>
             let labelJson = json_or_null j in
             if \<not> resp_ok label_status \<or> \<not> truthy (get_prop labelJson ''labelData'') then
               let (sheetsLogged, tr2) =
                     postToSheets_draft (SHEETS_WEBHOOK_URL ev) (sheets_fetch w)
                       (label_failPayload_draft rt w b fs label_status)
               in (Inr (sendJson 400
                         [(''ok'', JBool False),
                          (''error'', JStr ''Label creation failed''),
                          (''details'', labelJson),
                          (''sheetsLogged'', sheetsLogged)]),
                   tr @ tr2)
             else submit_mail_draft rt ev w b fs labelJson tr)"

definition handler_draft_try ::
  "runtime \<Rightarrow> env \<Rightarrow> mail_world \<Rightarrow> request \<Rightarrow> (string + response) \<times> event list" where
  "handler_draft_try rt ev w req =
     (if req_method req \<noteq> ''POST'' then
        (Inr (sendJson 405 [(''ok'', JBool False), (''error'', JStr ''Method Not Allowed'')]), [])
      else
        let creds = parseBasicAuth_draft rt req;
            expectedUser = MAIL_USER ev;
            expectedPass = MAIL_PASS ev
        in
        if expectedUser = [] \<or> expectedPass = [] then
          (Inr (sendJson 500 [(''ok'', JBool False),
                              (''error'', JStr ''Missing MAIL_USER/MAIL_PASS env vars'')]), [])
        else if (case creds of
                   None \<Rightarrow> True
                 | Some (user, pass) \<Rightarrow> user \<noteq> expectedUser \<or> pass \<noteq> expectedPass) then
          (Inr unauthorized, [])
        else
          (case parse_body rt (req_body req) of
             Inl e \<Rightarrow> (Inl e, [])
           | Inr b \<Rightarrow>
               if LOB_API_KEY ev = [] then
                 (Inr (sendJson 500 [(''ok'', JBool False),
                                     (''error'', JStr ''Missing LOB_API_KEY env var'')]), [])
               else
                 let fs = read_fields rt b;
                     missing = missing_fields fs
                 in
                 if missing \<noteq> [] then
                   (if nullish b then (Inl (TypeError_null ''email''), [])
                    else
                      let (sheetsLogged, tr) =
                            postToSheets_draft (SHEETS_WEBHOOK_URL ev) (sheets_fetch w)
                              (validation_failPayload_draft rt w b fs missing)
                      in (Inr (sendJson 400
                                [(''ok'', JBool False),
                                 (''error'',
                                    JStr (''Missing required fields: '' @ join '', '' missing)),
                                 (''sheetsLogged'', sheetsLogged)]),
                          tr))
                 else request_label_draft rt ev w req b fs))"

definition handler_draft ::
  "runtime \<Rightarrow> env \<Rightarrow> mail_world \<Rightarrow> request \<Rightarrow> response \<times> event list" where
  "handler_draft rt ev w req =
     (case handler_draft_try rt ev w req of
        (Inr res, tr) \<Rightarrow> (res, tr)
      | (Inl e, tr) \<Rightarrow> (sendJson 500 [(''ok'', JBool False), (''error'', JStr e)], tr))"

text \<open>Observations on a trace.\<close>

definition audit_records :: "event list \<Rightarrow> (string \<times> jsval) list list" where
  "audit_records tr = concat (map (\<lambda>e. case e of PostToSheets p \<Rightarrow> [p] | Fetch u b \<Rightarrow> []) tr)"

definition network_calls :: "event list \<Rightarrow> string list" where
  "network_calls tr = concat (map (\<lambda>e. case e of PostToSheets p \<Rightarrow> [] | Fetch u b \<Rightarrow> [u]) tr)"

definition audit_fields :: "string list" where
  "audit_fields =
     [''request_id'', ''lob_letter_id'', ''source'', ''created_at_iso'', ''customer_name'',
      ''customer_email'', ''customer_phone'', ''from_address1'', ''from_address2'',
      ''from_city'', ''from_state'', ''from_zip'', ''device_type'', ''device_serial'',
      ''return_reason'', ''weight_oz'', ''service_type'', ''tracking_number'', ''label_id'',
      ''postage_total_usd'', ''status'', ''status_last_checked'', ''delivered_at'',
      ''latest_event'']"

definition json_field :: "response \<Rightarrow> string \<Rightarrow> jsval option" where
  "json_field res k = (case res_body res of Json obj \<Rightarrow> map_of obj k | Text t \<Rightarrow> None)"

text \<open>The verdict of a response: its status and its \<open>ok\<close> flag.\<close>

definition verdict :: "response \<Rightarrow> nat \<times> jsval option" where
  "verdict res = (res_status res, json_field res ''ok'')"

definition try_verdict :: "string + response \<Rightarrow> string + nat \<times> jsval option" where
  "try_verdict r = (case r of Inl e \<Rightarrow> Inl e | Inr res \<Rightarrow> Inr (verdict res))"

text \<open>
  A required field is missing, in the words of the specification: absent (or
  \<open>null\<close>), or empty after trimming. api/create-label.js tests \<open>body[k] || ""\<close>, which
  also takes \<open>false\<close>, \<open>0\<close> and \<open>NaN\<close> for missing.
\<close>

definition absent_or_blank :: "runtime \<Rightarrow> jsval \<Rightarrow> string \<Rightarrow> bool" where
  "absent_or_blank rt b k =
     (get_prop b k = JUndefined \<or> get_prop b k = JNull \<or> trim (ToString rt (get_prop b k)) = [])"

definition falsy_or_blank :: "runtime \<Rightarrow> jsval \<Rightarrow> string \<Rightarrow> bool" where
  "falsy_or_blank rt b k =
     (if truthy (get_prop b k) then trim (ToString rt (get_prop b k)) = [] else True)"

text \<open>
  The request has passed the gates of api/mail-label.js that come before the required
  fields are read: the method, the configured credential, the Basic header, the parse
  of the body (to \<open>b\<close>) and the mail provider's key.
\<close>

definition gates_passed :: "runtime \<Rightarrow> env \<Rightarrow> request \<Rightarrow> jsval \<Rightarrow> bool" where
  "gates_passed rt ev req b =
     (req_method req = ''POST'' \<and> MAIL_USER ev \<noteq> [] \<and> MAIL_PASS ev \<noteq> []
      \<and> parseBasicAuth rt req = Some (MAIL_USER ev, MAIL_PASS ev)
      \<and> parse_body rt (req_body req) = Inr b
      \<and> LOB_API_KEY ev \<noteq> [])"

text \<open>The same for api/create-label.js: the method, the carrier's credentials, the parse.\<close>

definition create_gates_passed :: "runtime \<Rightarrow> env \<Rightarrow> request \<Rightarrow> jsval \<Rightarrow> bool" where
  "create_gates_passed rt ev req b =
     (req_method req = ''POST'' \<and> SERA_CLIENT_ID ev \<noteq> [] \<and> SERA_CLIENT_SECRET ev \<noteq> []
      \<and> SERA_REFRESH_TOKEN ev \<noteq> []
      \<and> parse_body rt (req_body req) = Inr b)"

text \<open>The label endpoint answered with a label: a 2xx status, \<open>ok\<close> and \<open>labelData\<close>.\<close>

definition label_issued :: "nat \<Rightarrow> jsval \<Rightarrow> bool" where
  "label_issued label_status labelJson =
     (resp_ok label_status \<and> truthy (get_prop labelJson ''ok'')
      \<and> truthy (get_prop labelJson ''labelData''))"

text \<open>
  The failures of the token endpoint in the words of the specification: it is
  unreachable, it answers with a status outside 2xx, or its answer has no access token
  (no JSON body, or an \<open>access_token\<close> that is absent or falsy).
\<close>

definition token_failure :: "fetch_result \<Rightarrow> bool" where
  "token_failure net =
     (case net of
        FetchThrows e \<Rightarrow> True
      | FetchResp st j t \<Rightarrow>
          (if resp_ok st then
             (case j of None \<Rightarrow> True | Some data \<Rightarrow> get_prop data ''access_token'' \<in>
                {JUndefined, JNull, JBool False, JNum NaN, JNum (Fin 0), JStr []})
           else True))"

text \<open>
  An audit record with the stable schema: all the fields of the sink, in order, and no
  \<open>undefined\<close> value (\<open>JSON.stringify\<close> would omit the field).
\<close>

definition stable_record :: "(string \<times> jsval) list \<Rightarrow> bool" where
  "stable_record p = (map fst p = audit_fields \<and> JUndefined \<notin> snd ` set p)"

section \<open>A concrete deployment and requests\<close>

text \<open>
  A runtime fixed on the strings the examples convert: the Base64 forms of
  \<open>ops:s3cret\<close> and \<open>ops:wrong\<close>, and a few literals. Nothing is said about it
  elsewhere.
\<close>

definition example_rt :: runtime where
  "example_rt =
     \<lparr>b64_utf8 = (\<lambda>s. if s = ''b3BzOnMzY3JldA=='' then ''ops:s3cret''
                      else if s = ''b3BzOndyb25n'' then ''ops:wrong'' else undefined),
      json_parse = (\<lambda>s. if s = ''{}'' then Inr (JObj [])
                        else if s = ''null'' then Inr JNull else undefined),
      str_to_num = (\<lambda>s. if s = ''20'' then Fin 20 else undefined),
      num_to_str = (\<lambda>n. if n = Fin 20 then ''20'' else undefined),
      json_stringify = (\<lambda>v. if v = JNull then ''null'' else undefined)\<rparr>"

definition example_env :: env where
  "example_env =
     \<lparr>MAIL_USER = ''ops'', MAIL_PASS = ''s3cret'', LOB_API_KEY = ''test_0123'',
      SHEETS_WEBHOOK_URL = ''https://flow.example/audit'',
      LOB_FROM_NAME = [], LOB_FROM_ADDRESS1 = [], LOB_FROM_CITY = [], LOB_FROM_STATE = [],
      LOB_FROM_ZIP = [],
      SERA_SIGNIN_BASE = [], SERA_API_BASE = [], SERA_CLIENT_ID = ''client'',
      SERA_CLIENT_SECRET = ''secret'', SERA_REFRESH_TOKEN = ''refresh''\<rparr>"

text \<open>The request of the end-to-end scenario of the specification.\<close>

definition jane_body :: jsval where
  "jane_body =
     JObj [(''name'', JStr ''Jane Doe''), (''address1'', JStr ''1 Main St''),
           (''city'', JStr ''Springfield''), (''state'', JStr ''IL''),
           (''zip'', JStr ''62704''), (''phone'', JStr ''2175551234''),
           (''deviceType'', JStr ''base-unit''), (''weightLbs'', JNum (Fin 1))]"

definition jane_request :: request where
  "jane_request =
     \<lparr>req_method = ''POST'',
      req_headers = [(''authorization'', ''Basic b3BzOnMzY3JldA==''),
                     (''host'', ''returns.example'')],
      req_body = jane_body\<rparr>"

text \<open>The same request without a name and with a blank city.\<close>

definition nameless_body :: jsval where
  "nameless_body =
     JObj [(''address1'', JStr ''1 Main St''),
           (''city'', JStr ''  ''), (''state'', JStr ''IL''),
           (''zip'', JStr ''62704''), (''phone'', JStr ''2175551234''),
           (''deviceType'', JStr ''base-unit''), (''weightLbs'', JNum (Fin 1))]"

definition nameless_request :: request where
  "nameless_request = jane_request\<lparr>req_body := nameless_body\<rparr>"

text \<open>The same request with a wrong password.\<close>

definition intruder_request :: request where
  "intruder_request =
     jane_request\<lparr>req_headers := [(''authorization'', ''Basic b3BzOndyb25n''),
                                   (''host'', ''returns.example'')]\<rparr>"

definition example_carrier :: create_world where
  "example_carrier =
     \<lparr>uuid = ''0b6f2c1e-7a53-4c55-9d0e-2f4a2f1f8e11'',
      ship_date = ''2026-01-15'',
      now_iso = ''2026-01-15T10:00:00.000Z'',
      token_fetch = FetchResp 200 (Some (JObj [(''access_token'', JStr ''at-1'')])) None,
      carrier_fetch =
        FetchResp 200
          (Some (JObj [(''tracking_number'', JStr ''9200190000000000000017''),
                       (''label_data'', JStr ''JVBERi0xLjQ='')])) None,
      href_fetch = Inl ''unused'',
      create_sheets_fetch = FetchResp 202 None None\<rparr>"

text \<open>
  The world in which every service succeeds and \<open>/api/create-label\<close> is served by
  api/create-label.js.
\<close>

definition example_world :: mail_world where
  "example_world =
     \<lparr>date_now = 1768471200000,
      created_iso = ''2026-01-15T10:00:01.000Z'',
      checked_iso = ''2026-01-15T10:00:01.000Z'',
      label_endpoint = create_label_endpoint example_rt example_env example_carrier,
      pdf_io = \<lparr>buffer_error = None, instructions = None,
                 embed_label = Inr (Fin 288, Fin 432)\<rparr>,
      lob_fetch = FetchResp 200 (Some (JObj [(''id'', JStr ''ltr_4868c3b754655f90''),
                                             (''status'', JStr ''processed'')])) None,
      sheets_fetch = FetchResp 202 None None\<rparr>"

text \<open>
  A world in which the label endpoint answers with a label but no tracking number, and
  one in which the mail provider then rejects the letter.
\<close>

definition untracked_world :: mail_world where
  "untracked_world =
     example_world
       \<lparr>label_endpoint :=
          (\<lambda>url b. (FetchResp 200
                       (Some (JObj [(''ok'', JBool True), (''trackingNumber'', JStr []),
                                    (''labelData'', JStr ''JVBERi0xLjQ='')])) None, []))\<rparr>"

definition rejecting_world :: mail_world where
  "rejecting_world =
     example_world
       \<lparr>label_endpoint :=
          (\<lambda>url b. (FetchResp 200
                       (Some (JObj [(''ok'', JBool True),
                                    (''trackingNumber'', JStr ''9200190000000000000017''),
                                    (''labelData'', JStr ''JVBERi0xLjQ='')])) None, [])),
        lob_fetch :=
          FetchResp 422 (Some (JObj [(''error'', JStr ''address undeliverable'')])) None\<rparr>"

text \<open>
  A world in which the label is issued and the call to the mail provider then rejects:
  \<open>fetch\<close> throws, so there is no response and no HTTP status.
\<close>

definition unreachable_world :: mail_world where
  "unreachable_world = rejecting_world\<lparr>lob_fetch := FetchThrows ''TypeError: fetch failed''\<rparr>"

section \<open>Properties\<close>

text \<open>
  The definitions that evaluate the model on the concrete deployment.
\<close>

lemmas example_defs = example_rt_def example_env_def example_world_def example_carrier_def
  jane_request_def jane_body_def nameless_request_def nameless_body_def intruder_request_def
  untracked_world_def rejecting_world_def unreachable_world_def

lemmas js_defs = js_or_def nullish_def js_nullish_or_def trim_def is_ws_def or_empty_def
  js_field_def String_or_empty_def env_or_def resp_ok_def json_or_null_def sendJson_def
  show_nat_def digits.simps Let_def

lemmas mail_defs = handler_def handler_try_def request_label_def submit_mail_def
  parseBasicAuth_def header_def getBaseUrl_def requireField_def read_fields_def
  missing_fields_def parse_body_def normalizeWeightOz_mail_def
  buildInstructionsPlusLabelPdf_def fit_label_def LETTER_W_def LETTER_H_def targetW_def
  targetH_def lob_form_def postToSheets_def validation_failPayload_def label_failPayload_def
  lob_failPayload_def sheetsPayload_def crashPayload_def

lemmas draft_defs = handler_draft_def handler_draft_try_def request_label_draft_def
  submit_mail_draft_def parseBasicAuth_draft_def postToSheets_draft_def lob_form_draft_def
  validation_failPayload_draft_def label_failPayload_draft_def lob_failPayload_draft_def
  sheetsPayload_draft_def SOURCE_def

lemmas create_defs = create_label_endpoint_def create_label_def create_label_try_def
  issue_label_def deliver_label_def missing_create_def required_def customerFromAddress_def
  or_empty_trim_def normalizeWeightOz_create_def getAccessToken_def sheetsPayload_create_def
  label_payload_def address_json_def strip_slashes_def SIGNIN_BASE_def API_BASE_def

text \<open>
  C1 (as amended). Both \<open>normalizeWeightOz\<close> functions follow the policy "ounces if
  accepted, else pounds times 16 if accepted, else the fallback", first match wins. In
  api/mail-label.js every finite positive number is accepted and the fallback is
  \<open>null\<close>; in api/create-label.js only 16 and 32 ounces and 1 and 2 pounds are accepted
  and the fallback is 32.
\<close>

theorem C1_weight_resolution:
  "normalizeWeightOz_mail rt b =
     weight_policy positive_finite positive_finite JNull JNum
       (ToNumber rt (get_prop b ''weightOz'')) (ToNumber rt (get_prop b ''weightLbs''))
   \<and> normalizeWeightOz_create rt b =
     (if nullish b then Inl ''TypeError''
      else weight_policy dropdown_oz dropdown_lbs (Inr (Fin 32)) Inr
             (ToNumber rt (get_prop b ''weightOz'')) (ToNumber rt (get_prop b ''weightLbs'')))"
proof
  show "normalizeWeightOz_mail rt b =
     weight_policy positive_finite positive_finite JNull JNum
       (ToNumber rt (get_prop b ''weightOz'')) (ToNumber rt (get_prop b ''weightLbs''))"
    by (cases "ToNumber rt (get_prop b ''weightOz'')"; cases "ToNumber rt (get_prop b ''weightLbs'')")
       (simp_all add: normalizeWeightOz_mail_def weight_policy_def positive_finite_def Let_def)
next
  show "normalizeWeightOz_create rt b =
     (if nullish b then Inl ''TypeError''
      else weight_policy dropdown_oz dropdown_lbs (Inr (Fin 32)) Inr
             (ToNumber rt (get_prop b ''weightOz'')) (ToNumber rt (get_prop b ''weightLbs'')))"
    by (auto simp add: normalizeWeightOz_create_def weight_policy_def dropdown_oz_def
          dropdown_lbs_def Let_def)
qed

text \<open>
  The examples of the specification: \<open>weightOz = 20\<close> gives 20 in api/mail-label.js,
  \<open>weightLbs = 2\<close> gives 32 in both, ounces win over pounds.
\<close>

theorem C1_weight_resolution_witness:
  "normalizeWeightOz_mail example_rt (JObj [(''weightOz'', JNum (Fin 20))]) = JNum (Fin 20)
   \<and> normalizeWeightOz_mail example_rt (JObj [(''weightLbs'', JNum (Fin 2))]) = JNum (Fin 32)
   \<and> normalizeWeightOz_mail example_rt (JObj []) = JNull
   \<and> normalizeWeightOz_create example_rt (JObj [(''weightOz'', JNum (Fin 16)), (''weightLbs'', JNum (Fin 2))]) = Inr (Fin 16)
   \<and> normalizeWeightOz_create example_rt (JObj [(''weightLbs'', JNum (Fin 2))]) = Inr (Fin 32)
   \<and> normalizeWeightOz_create example_rt (JObj [(''weightOz'', JNum (Fin 20)), (''weightLbs'', JNum (Fin 1))]) = Inr (Fin 16)"
  using C1_weight_resolution [of example_rt "JObj [(''weightOz'', JNum (Fin 20))]"]
        C1_weight_resolution [of example_rt "JObj [(''weightLbs'', JNum (Fin 2))]"]
        C1_weight_resolution [of example_rt "JObj []"]
        C1_weight_resolution [of example_rt "JObj [(''weightOz'', JNum (Fin 16)), (''weightLbs'', JNum (Fin 2))]"]
        C1_weight_resolution [of example_rt "JObj [(''weightOz'', JNum (Fin 20)), (''weightLbs'', JNum (Fin 1))]"]
  by (simp add: weight_policy_def positive_finite_def dropdown_oz_def dropdown_lbs_def nullish_def)

text \<open>
  C1 as stated fails in api/create-label.js: \<open>weightOz = 20\<close> is not a value of the
  dropdown, so the weight is the fallback 32 and not 20.
\<close>

theorem C1_counterexample:
  "normalizeWeightOz_create example_rt (JObj [(''weightOz'', JNum (Fin 20))]) = Inr (Fin 32)
   \<and> normalizeWeightOz_create example_rt (JObj [(''weightOz'', JNum (Fin 20))]) \<noteq> Inr (Fin 20)"
  by (simp add: normalizeWeightOz_create_def nullish_def)

text \<open>
  C3. For a label page of 288 by 432 units the two ratios are 35/24 and 25/18, the scale
  is 600/432 = 25/18, the drawn size is 400 by 600 and the offsets are 106 and 96; the
  composed document is one letter page with the label drawn there.
\<close>

theorem C3_label_4x6:
  "js_div targetW (Fin 288) = Fin (35 / 24)
   \<and> js_div targetH (Fin 432) = Fin (25 / 18)
   \<and> fit_label (Fin 288) (Fin 432) =
       \<lparr>scale = Fin (25 / 18), drawW = Fin 400, drawH = Fin 600,
        pos_x = Fin 106, pos_y = Fin 96\<rparr>
   \<and> scale (fit_label (Fin 288) (Fin 432)) = js_div (Fin 600) (Fin 432)
   \<and> buildInstructionsPlusLabelPdf
        \<lparr>buffer_error = None, instructions = None, embed_label = Inr (Fin 288, Fin 432)\<rparr> =
       Inr [LetterPage (Fin 612) (Fin 792)
              \<lparr>draw_x = Fin 106, draw_y = Fin 96, xScale = Fin (25 / 18), yScale = Fin (25 / 18)\<rparr>]"
  by (simp add: fit_label_def targetW_def targetH_def LETTER_W_def LETTER_H_def Let_def
        buildInstructionsPlusLabelPdf_def)

subsection \<open>The fit of the label on the page\<close>

text \<open>
  In exact arithmetic, for every label page of positive width \<open>w\<close> and height \<open>h\<close>:
  the scale is \<open>min (420 / w) (600 / h)\<close>, the drawn size is the page size times the
  scale, the position centres it on the 612 by 792 page, the aspect ratio is kept, the
  drawn size is at most 420 by 600 and the offsets are at least 96.
\<close>

lemma fit_label_exact:
  assumes "0 < w" and "0 < h"
  shows "scale (fit_label (Fin w) (Fin h)) = Fin (min (420 / w) (600 / h))
    \<and> drawW (fit_label (Fin w) (Fin h)) = js_mul (Fin w) (scale (fit_label (Fin w) (Fin h)))
    \<and> drawH (fit_label (Fin w) (Fin h)) = js_mul (Fin h) (scale (fit_label (Fin w) (Fin h)))
    \<and> pos_x (fit_label (Fin w) (Fin h)) =
        js_div (js_sub (Fin 612) (drawW (fit_label (Fin w) (Fin h)))) (Fin 2)
    \<and> pos_y (fit_label (Fin w) (Fin h)) =
        js_div (js_sub (Fin 792) (drawH (fit_label (Fin w) (Fin h)))) (Fin 2)
    \<and> js_div (drawW (fit_label (Fin w) (Fin h))) (drawH (fit_label (Fin w) (Fin h))) =
        js_div (Fin w) (Fin h)
    \<and> js_le (drawW (fit_label (Fin w) (Fin h))) (Fin 420)
    \<and> js_le (drawH (fit_label (Fin w) (Fin h))) (Fin 600)
    \<and> js_le (Fin 96) (pos_x (fit_label (Fin w) (Fin h)))
    \<and> js_le (Fin 96) (pos_y (fit_label (Fin w) (Fin h)))
    \<and> js_le (js_add (pos_x (fit_label (Fin w) (Fin h))) (drawW (fit_label (Fin w) (Fin h))))
         (Fin 612)
    \<and> js_le (js_add (pos_y (fit_label (Fin w) (Fin h))) (drawH (fit_label (Fin w) (Fin h))))
         (Fin 792)"
proof -
  define s where "s = min (420 / w) (600 / h)"
  have s1: "s \<le> 420 / w" and s2: "s \<le> 600 / h"
    by (simp_all add: s_def)
  have spos: "0 < s"
    using assms by (simp add: s_def)
  have dw: "w * s \<le> 420"
    using s1 assms by (simp add: pos_le_divide_eq mult.commute)
  have dh: "h * s \<le> 600"
    using s2 assms by (simp add: pos_le_divide_eq mult.commute)
  have fit: "fit_label (Fin w) (Fin h) =
      \<lparr>scale = Fin s, drawW = Fin (w * s), drawH = Fin (h * s),
       pos_x = Fin ((612 - w * s) / 2), pos_y = Fin ((792 - h * s) / 2)\<rparr>"
    using assms
    by (simp add: fit_label_def targetW_def targetH_def LETTER_W_def LETTER_H_def Let_def s_def)
  have ratio: "w * s / (h * s) = w / h"
    using spos by simp
  have nz: "h * s \<noteq> 0"
    using spos assms by simp
  have px: "(612 - w * s) / 2 + w * s \<le> 612"
    using dw by (simp add: field_simps)
  have py: "(792 - h * s) / 2 + h * s \<le> 792"
    using dh by (simp add: field_simps)
  have sc: "s = min (420 / w) (600 / h)"
    by (simp add: s_def)
  show ?thesis
    unfolding fit using dw dh ratio nz px py sc by simp
qed

text \<open>
  The exponent \<open>binade a\<close> brackets a positive \<open>a\<close> between two powers of two.
\<close>

lemma halvings_bounds:
  "1 \<le> r \<Longrightarrow> 2 ^ halvings r \<le> r \<and> r < 2 * 2 ^ halvings r"
proof (induction r rule: halvings.induct)
  case (1 r)
  show ?case
  proof (cases "2 \<le> r")
    case True
    then have "1 \<le> r / 2"
      by simp
    with 1(1) True have "2 ^ halvings (r / 2) \<le> r / 2 \<and> r / 2 < 2 * 2 ^ halvings (r / 2)"
      by blast
    moreover have "halvings r = Suc (halvings (r / 2))"
      using True by (simp add: halvings.simps [of r])
    ultimately show ?thesis
      by simp
  next
    case False
    then have "halvings r = 0"
      by (simp add: halvings.simps [of r])
    then show ?thesis
      using False 1(2) by simp
  qed
qed

lemma doublings_bounds:
  "0 < r \<Longrightarrow> r < 1 \<Longrightarrow> 1 \<le> r * 2 ^ doublings r \<and> r * 2 ^ doublings r < 2"
proof (induction r rule: doublings.induct)
  case (1 r)
  have step: "doublings r = Suc (doublings (r * 2))"
    using 1(2,3) by (simp add: doublings.simps [of r])
  show ?case
  proof (cases "r * 2 < 1")
    case True
    with 1 have "1 \<le> r * 2 * 2 ^ doublings (r * 2) \<and> r * 2 * 2 ^ doublings (r * 2) < 2"
      by simp
    then show ?thesis
      by (simp add: step mult.assoc)
  next
    case False
    then have "doublings (r * 2) = 0"
      by (simp add: doublings.simps [of "r * 2"])
    then show ?thesis
      using False 1(3) by (simp add: step)
  qed
qed

lemma binade_bounds:
  assumes "0 < a"
  shows "2 powi binade a \<le> a \<and> a < 2 powi (binade a + 1)"
proof (cases "1 \<le> a")
  case True
  then have "binade a = int (halvings a)"
    by (simp add: binade_def)
  moreover have "int (halvings a) + 1 = int (Suc (halvings a))"
    by simp
  ultimately show ?thesis
    using halvings_bounds [OF True] by (simp only: power_int_of_nat power_Suc)
next
  case False
  then have lt: "a < 1"
    by simp
  have b: "binade a = - int (doublings a)"
    using False by (simp add: binade_def)
  have d: "1 \<le> a * 2 ^ doublings a" "a * 2 ^ doublings a < 2"
    using doublings_bounds [OF assms lt] by simp_all
  have p: "2 powi binade a = 1 / (2::rat) ^ doublings a"
    by (simp add: b power_int_minus_divide)
  have "2 powi (binade a + 1) = 2 powi binade a * (2::rat)"
    by (rule power_int_add_1) simp
  then have q: "2 powi (binade a + 1) = 2 / (2::rat) ^ doublings a"
    by (simp add: p)
  have "2 powi binade a \<le> a"
    using d(1) by (simp add: p field_simps)
  moreover have "a < 2 powi (binade a + 1)"
    unfolding q using d(2) by (simp add: field_simps)
  ultimately show ?thesis
    by blast
qed

text \<open>
  Rounding to the nearest integer moves a number by at most one half, and an integer
  closer than one half is the rounded value.
\<close>

lemma round_half_even_error: "\<bar>of_int (round_half_even x) - x\<bar> \<le> 1 / 2"
proof -
  have "of_int \<lfloor>x\<rfloor> \<le> x" "x < of_int \<lfloor>x\<rfloor> + 1"
    by linarith+
  then show ?thesis
    by (simp add: round_half_even_def Let_def)
qed

lemma round_half_even_eqI:
  assumes "\<bar>x - of_int n\<bar> < 1 / 2"
  shows "round_half_even x = n"
proof -
  have "\<bar>of_int (round_half_even x) - x\<bar> \<le> 1 / 2"
    by (rule round_half_even_error)
  with assms have "\<bar>(of_int (round_half_even x) :: rat) - of_int n\<bar> < 1"
    by linarith
  then have "\<bar>round_half_even x - n\<bar> < 1"
    by (metis of_int_diff of_int_abs of_int_less_1_iff)
  then show ?thesis
    by linarith
qed

text \<open>
  In the normal range a rounded value is finite and within the relative error
  \<open>2 ^ (- 53)\<close> of the exact one.
\<close>

lemma round_double_rel:
  assumes lo: "2 powi (- 1022) \<le> \<bar>r\<bar>" and hi: "\<bar>r\<bar> \<le> 2 ^ 1023"
  shows "\<exists>v. round_double r = Fin v \<and> \<bar>v - r\<bar> \<le> \<bar>r\<bar> / 2 ^ 53"
proof -
  define a where "a = \<bar>r\<bar>"
  have "(0::rat) < 2 powi (- 1022)"
    by simp
  with lo have a0: "0 < a"
    unfolding a_def by linarith
  then have r0: "r \<noteq> 0"
    by (auto simp: a_def)
  define e where "e = binade a"
  have b: "2 powi e \<le> a" "a < 2 powi (e + 1)"
    using binade_bounds [OF a0] by (simp_all add: e_def)
  have e_lo: "- 1022 \<le> e"
  proof (rule ccontr)
    assume "\<not> - 1022 \<le> e"
    then have "e + 1 \<le> - 1022"
      by simp
    then have "(2::rat) powi (e + 1) \<le> 2 powi (- 1022)"
      by (rule power_int_increasing) simp
    with b(2) lo show False
      unfolding a_def by linarith
  qed
  define q where "q = e - 52"
  have mx: "max (binade a) (- 1022) - 52 = q"
    using e_lo by (simp add: q_def e_def)
  have q0: "(0::rat) < 2 powi q"
    by simp
  define n where "n = round_half_even (a / 2 powi q)"
  define v :: rat where "v = of_int n * 2 powi q"
  have err: "\<bar>of_int n - a / 2 powi q\<bar> \<le> 1 / 2"
    unfolding n_def by (rule round_half_even_error)
  have "v - a = (of_int n - a / 2 powi q) * 2 powi q"
    using q0 by (simp add: v_def field_simps)
  then have "\<bar>v - a\<bar> = \<bar>of_int n - a / 2 powi q\<bar> * 2 powi q"
    using q0 by (simp add: abs_mult)
  also have "\<dots> \<le> 1 / 2 * 2 powi q"
    using err q0 by (intro mult_right_mono) simp_all
  also have "\<dots> = 2 powi e / 2 ^ 53"
  proof -
    have "(2::rat) powi (e - 52) = 2 powi e / 2 powi 52"
      by (rule power_int_diff) simp
    then show ?thesis
      by (simp add: q_def)
  qed
  also have "\<dots> \<le> a / 2 ^ 53"
    using b(1) by (simp add: divide_right_mono)
  finally have va: "\<bar>v - a\<bar> \<le> a / 2 ^ 53" .
  have "v \<le> a + a / 2 ^ 53"
    using va by linarith
  also have "\<dots> = a * (1 + 1 / 2 ^ 53)"
    by (simp add: field_simps)
  also have "\<dots> \<le> 2 ^ 1023 * (1 + 1 / 2 ^ 53)"
    using hi unfolding a_def by (intro mult_right_mono) simp_all
  also have "\<dots> < 2 ^ 1024"
    by simp
  finally have fin: "\<not> 2 ^ 1024 \<le> v"
    by simp
  have "round_double r =
      (if 2 ^ 1024 \<le> v then Inf (0 < r) else Fin (if 0 < r then v else - v))"
    unfolding round_double_def Let_def
    by (simp only: r0 if_False a_def [symmetric] mx n_def [symmetric] v_def [symmetric])
  then have rd: "round_double r = Fin (if 0 < r then v else - v)"
    using fin by simp
  show ?thesis
  proof (cases "0 < r")
    case True
    then have "a = r"
      by (simp add: a_def)
    with va True show ?thesis
      by (auto simp: rd)
  next
    case False
    then have ar: "a = - r"
      using r0 by (simp add: a_def)
    have "\<bar>- v - r\<bar> = \<bar>v - a\<bar>"
      by (simp add: ar abs_minus_commute) 
    with va ar False show ?thesis
      by (auto simp: rd)
  qed
qed

lemma round_double_pos:
  assumes "1 / 2 ^ 1022 \<le> r" and "r \<le> 2 ^ 1023"
  shows "\<exists>v. round_double r = Fin v \<and> r * (1 - 1 / 2 ^ 53) \<le> v \<and> v \<le> r * (1 + 1 / 2 ^ 53)"
proof -
  have r0: "0 < r"
    using assms(1) by (rule less_le_trans [rotated]) simp
  then have "2 powi (- 1022) \<le> \<bar>r\<bar>" "\<bar>r\<bar> \<le> 2 ^ 1023"
    using assms by (simp_all add: power_int_minus_divide)
  from round_double_rel [OF this] obtain v
    where v: "round_double r = Fin v" "\<bar>v - r\<bar> \<le> \<bar>r\<bar> / 2 ^ 53"
    by blast
  have "\<bar>r\<bar> / 2 ^ 53 = r * (1 / 2 ^ 53)"
    using r0 by simp
  with v(2) have "r - r * (1 / 2 ^ 53) \<le> v" "v \<le> r + r * (1 / 2 ^ 53)"
    by linarith+
  then have "r * (1 - 1 / 2 ^ 53) \<le> v \<and> v \<le> r * (1 + 1 / 2 ^ 53)"
    by (simp only: right_diff_distrib distrib_left mult_1_right)
  with v(1) show ?thesis
    by blast
qed

lemma round_double_near:
  assumes "lo \<le> r" and "r \<le> hi" and "1 / 2 ^ 1022 \<le> lo" and "hi \<le> 2 ^ 1023"
  shows "\<exists>v. round_double r = Fin v \<and> r * (1 - 1 / 2 ^ 53) \<le> v \<and> v \<le> r * (1 + 1 / 2 ^ 53)"
  using assms by (intro round_double_pos) linarith+

text \<open>
  The rounded value of a positive number, from its binade and the integer nearest to its
  scaled significand.
\<close>

lemma round_double_eval:
  assumes "0 < r" and "binade r = e" and "- 1022 \<le> e"
    and "\<bar>r / 2 powi (e - 52) - of_int n\<bar> < 1 / 2"
    and "of_int n * 2 powi (e - 52) < (2::rat) ^ 1024"
  shows "round_double r = Fin (of_int n * 2 powi (e - 52))"
proof -
  have "round_half_even (r / 2 powi (e - 52)) = n"
    using assms(4) by (rule round_half_even_eqI)
  moreover have "max e (- 1022) = e"
    using assms(3) by simp
  moreover have "\<bar>r\<bar> = r" "r \<noteq> 0"
    using assms(1) by simp_all
  ultimately show ?thesis
    using assms(1,2,5) by (simp add: round_double_def Let_def)
qed

text \<open>
  The rounded fit, from the value of each of its operations.
\<close>

lemma fit_label_doubleI:
  assumes "w \<noteq> 0" and "h \<noteq> 0"
    and "round_double (420 / w) = Fin v1" and "round_double (600 / h) = Fin v2"
    and "min v1 v2 = s"
    and "round_double (w * s) = Fin dw" and "round_double (h * s) = Fin dh"
    and "round_double (612 - dw) = Fin t" and "round_double (t / 2) = Fin x"
    and "round_double (792 - dh) = Fin t'" and "round_double (t' / 2) = Fin y"
  shows "fit_label_double (Fin w) (Fin h) =
    \<lparr>scale = Fin s, drawW = Fin dw, drawH = Fin dh, pos_x = Fin x, pos_y = Fin y\<rparr>"
  using assms
  by (simp add: fit_label_double_def Let_def targetW_def targetH_def LETTER_W_def LETTER_H_def)

text \<open>
  The operations of the fit for a label page of 312 by 432 units.
\<close>

lemma page_312x432_ratio_w:
  "round_double (420 / 312) =
     Fin (3031268979960911 / 2251799813685248)"
proof -
  have "round_double (420 / 312) = Fin (of_int 6062537959921822 * 2 powi (0 - 52))"
  proof (rule round_double_eval)
    show "binade (420 / 312) = 0"
      by (simp add: binade_def halvings.simps doublings.simps)
  qed simp_all
  then show ?thesis
    by simp
qed

lemma page_312x432_ratio_h:
  "round_double (600 / 432) =
     Fin (3127499741229511 / 2251799813685248)"
proof -
  have "round_double (600 / 432) = Fin (of_int 6254999482459022 * 2 powi (0 - 52))"
  proof (rule round_double_eval)
    show "binade (600 / 432) = 0"
      by (simp add: binade_def halvings.simps doublings.simps)
  qed simp_all
  then show ?thesis
    by simp
qed

lemma page_312x432_drawW:
  "round_double (312 * (3031268979960911 / 2251799813685248)) =
     Fin (7388718138654721 / 17592186044416)"
proof -
  have "round_double (312 * (3031268979960911 / 2251799813685248)) =
      Fin (of_int 7388718138654721 * 2 powi (8 - 52))"
  proof (rule round_double_eval)
    show "binade (312 * (3031268979960911 / 2251799813685248)) = 8"
      by (simp add: binade_def halvings.simps doublings.simps)
  qed simp_all
  then show ?thesis
    by simp
qed

lemma page_312x432_drawH:
  "round_double (432 * (3031268979960911 / 2251799813685248)) =
     Fin (5115266403684037 / 8796093022208)"
proof -
  have "round_double (432 * (3031268979960911 / 2251799813685248)) =
      Fin (of_int 5115266403684037 * 2 powi (9 - 52))"
  proof (rule round_double_eval)
    show "binade (432 * (3031268979960911 / 2251799813685248)) = 9"
      by (simp add: binade_def halvings.simps doublings.simps)
  qed simp_all
  then show ?thesis
    by simp
qed

lemma page_312x432_room_x:
  "round_double (612 - (7388718138654721 / 17592186044416)) =
     Fin (3377699720527871 / 17592186044416)"
proof -
  have "round_double (612 - (7388718138654721 / 17592186044416)) =
      Fin (of_int 6755399441055742 * 2 powi (7 - 52))"
  proof (rule round_double_eval)
    show "binade (612 - (7388718138654721 / 17592186044416)) = 7"
      by (simp add: binade_def halvings.simps doublings.simps)
  qed simp_all
  then show ?thesis
    by simp
qed

lemma page_312x432_x:
  "round_double ((3377699720527871 / 17592186044416) / 2) =
     Fin (3377699720527871 / 35184372088832)"
proof -
  have "round_double ((3377699720527871 / 17592186044416) / 2) =
      Fin (of_int 6755399441055742 * 2 powi (6 - 52))"
  proof (rule round_double_eval)
    show "binade ((3377699720527871 / 17592186044416) / 2) = 6"
      by (simp add: binade_def halvings.simps doublings.simps)
  qed simp_all
  then show ?thesis
    by simp
qed

lemma page_312x432_room_y:
  "round_double (792 - (5115266403684037 / 8796093022208)) =
     Fin (1851239269904699 / 8796093022208)"
proof -
  have "round_double (792 - (5115266403684037 / 8796093022208)) =
      Fin (of_int 7404957079618796 * 2 powi (7 - 52))"
  proof (rule round_double_eval)
    show "binade (792 - (5115266403684037 / 8796093022208)) = 7"
      by (simp add: binade_def halvings.simps doublings.simps)
  qed simp_all
  then show ?thesis
    by simp
qed

lemma page_312x432_y:
  "round_double ((1851239269904699 / 8796093022208) / 2) =
     Fin (1851239269904699 / 17592186044416)"
proof -
  have "round_double ((1851239269904699 / 8796093022208) / 2) =
      Fin (of_int 7404957079618796 * 2 powi (6 - 52))"
  proof (rule round_double_eval)
    show "binade ((1851239269904699 / 8796093022208) / 2) = 6"
      by (simp add: binade_def halvings.simps doublings.simps)
  qed simp_all
  then show ?thesis
    by simp
qed

lemma fit_label_double_312x432:
  "fit_label_double (Fin 312) (Fin 432) =
     \<lparr>scale = Fin (3031268979960911 / 2251799813685248),
      drawW = Fin (7388718138654721 / 17592186044416),
      drawH = Fin (5115266403684037 / 8796093022208),
      pos_x = Fin (3377699720527871 / 35184372088832),
      pos_y = Fin (1851239269904699 / 17592186044416)\<rparr>"
  by (rule fit_label_doubleI [OF _ _ page_312x432_ratio_w page_312x432_ratio_h _
        page_312x432_drawW page_312x432_drawH page_312x432_room_x page_312x432_x
        page_312x432_room_y page_312x432_y]) simp_all

text \<open>
  The operations of the fit for the 4 by 6 inch label of 288 by 432 units: the scale is
  the binary64 value nearest to 25/18, and the drawn size 400 by 600 and the offsets 106
  and 96 are exact.
\<close>

lemma label_4x6_ratio_w:
  "round_double (420 / 288) = Fin (6567749456581973 / 4503599627370496)"
proof -
  have "round_double (420 / 288) = Fin (of_int 6567749456581973 * 2 powi (0 - 52))"
  proof (rule round_double_eval)
    show "binade (420 / 288) = 0"
      by (simp add: binade_def halvings.simps doublings.simps)
  qed simp_all
  then show ?thesis
    by simp
qed

lemma label_4x6_ratio_h:
  "round_double (600 / 432) = Fin (3127499741229511 / 2251799813685248)"
proof -
  have "round_double (600 / 432) = Fin (of_int 6254999482459022 * 2 powi (0 - 52))"
  proof (rule round_double_eval)
    show "binade (600 / 432) = 0"
      by (simp add: binade_def halvings.simps doublings.simps)
  qed simp_all
  then show ?thesis
    by simp
qed

lemma label_4x6_drawW:
  "round_double (288 * (3127499741229511 / 2251799813685248)) = Fin 400"
proof -
  have "round_double (288 * (3127499741229511 / 2251799813685248)) =
      Fin (of_int 7036874417766400 * 2 powi (8 - 52))"
  proof (rule round_double_eval)
    show "binade (288 * (3127499741229511 / 2251799813685248)) = 8"
      by (simp add: binade_def halvings.simps doublings.simps)
  qed simp_all
  then show ?thesis
    by simp
qed

lemma label_4x6_drawH:
  "round_double (432 * (3127499741229511 / 2251799813685248)) = Fin 600"
proof -
  have "round_double (432 * (3127499741229511 / 2251799813685248)) =
      Fin (of_int 5277655813324800 * 2 powi (9 - 52))"
  proof (rule round_double_eval)
    show "binade (432 * (3127499741229511 / 2251799813685248)) = 9"
      by (simp add: binade_def halvings.simps doublings.simps)
  qed simp_all
  then show ?thesis
    by simp
qed

lemma label_4x6_room_x:
  "round_double (612 - 400) = Fin 212"
proof -
  have "round_double (612 - 400) = Fin (of_int 7459086882832384 * 2 powi (7 - 52))"
  proof (rule round_double_eval)
    show "binade (612 - 400) = 7"
      by (simp add: binade_def halvings.simps doublings.simps)
  qed simp_all
  then show ?thesis
    by simp
qed

lemma label_4x6_x:
  "round_double (212 / 2) = Fin 106"
proof -
  have "round_double (212 / 2) = Fin (of_int 7459086882832384 * 2 powi (6 - 52))"
  proof (rule round_double_eval)
    show "binade (212 / 2) = 6"
      by (simp add: binade_def halvings.simps doublings.simps)
  qed simp_all
  then show ?thesis
    by simp
qed

lemma label_4x6_room_y:
  "round_double (792 - 600) = Fin 192"
proof -
  have "round_double (792 - 600) = Fin (of_int 6755399441055744 * 2 powi (7 - 52))"
  proof (rule round_double_eval)
    show "binade (792 - 600) = 7"
      by (simp add: binade_def halvings.simps doublings.simps)
  qed simp_all
  then show ?thesis
    by simp
qed

lemma label_4x6_y:
  "round_double (192 / 2) = Fin 96"
proof -
  have "round_double (192 / 2) = Fin (of_int 6755399441055744 * 2 powi (6 - 52))"
  proof (rule round_double_eval)
    show "binade (192 / 2) = 6"
      by (simp add: binade_def halvings.simps doublings.simps)
  qed simp_all
  then show ?thesis
    by simp
qed

lemma fit_label_double_4x6:
  "fit_label_double (Fin 288) (Fin 432) =
     \<lparr>scale = Fin (3127499741229511 / 2251799813685248),
      drawW = Fin 400, drawH = Fin 600, pos_x = Fin 106, pos_y = Fin 96\<rparr>"
  by (rule fit_label_doubleI [OF _ _ label_4x6_ratio_w label_4x6_ratio_h _
        label_4x6_drawW label_4x6_drawH label_4x6_room_x label_4x6_x
        label_4x6_room_y label_4x6_y]) simp_all

lemma scale_double_4x6:
  "\<bar>3127499741229511 / 2251799813685248 - 25 / 18\<bar> \<le> (25 / 18 :: rat) / 2 ^ 53"
  by simp

lemma abs_le_bounds:
  fixes v c e :: rat
  shows "c - e \<le> v \<Longrightarrow> v \<le> c + e \<Longrightarrow> \<bar>v - c\<bar> \<le> e"
  by linarith

text \<open>
  C4 (as amended). For every label page whose width \<open>w\<close> and height \<open>h\<close> lie between
  \<open>2 ^ (- 500)\<close> and \<open>2 ^ 500\<close>, the computation in binary64 returns finite numbers; the
  scale is within the relative error \<open>2 ^ (- 53)\<close> of \<open>s = min (420 / w) (600 / h)\<close>; the
  drawn size and the position are within \<open>2 ^ (- 42)\<close> of \<open>w * s\<close>, \<open>h * s\<close>,
  \<open>(612 - w * s) / 2\<close> and \<open>(792 - h * s) / 2\<close>; the aspect ratio of the drawn label is
  within the relative error \<open>2 ^ (- 51)\<close> of \<open>w / h\<close>; the drawn size is at most
  \<open>420 + 2 ^ (- 42)\<close> by \<open>600 + 2 ^ (- 42)\<close>, the offsets are at least \<open>96 - 2 ^ (- 42)\<close>,
  and the drawn rectangle lies within the 612 by 792 page.
\<close>

theorem C4_fit_within_tolerance:
  fixes w h :: rat
  assumes w: "1 / 2 ^ 500 \<le> w" "w \<le> 2 ^ 500" and h: "1 / 2 ^ 500 \<le> h" "h \<le> 2 ^ 500"
  shows "\<exists>s dw dh x y.
      fit_label_double (Fin w) (Fin h) =
        \<lparr>scale = Fin s, drawW = Fin dw, drawH = Fin dh, pos_x = Fin x, pos_y = Fin y\<rparr>
    \<and> \<bar>s - min (420 / w) (600 / h)\<bar> \<le> min (420 / w) (600 / h) / 2 ^ 53
    \<and> \<bar>dw - w * min (420 / w) (600 / h)\<bar> \<le> 1 / 2 ^ 42
    \<and> \<bar>dh - h * min (420 / w) (600 / h)\<bar> \<le> 1 / 2 ^ 42
    \<and> \<bar>x - (612 - w * min (420 / w) (600 / h)) / 2\<bar> \<le> 1 / 2 ^ 42
    \<and> \<bar>y - (792 - h * min (420 / w) (600 / h)) / 2\<bar> \<le> 1 / 2 ^ 42
    \<and> \<bar>dw / dh - w / h\<bar> \<le> (w / h) / 2 ^ 51
    \<and> 0 < dw \<and> dw \<le> 420 + 1 / 2 ^ 42
    \<and> 0 < dh \<and> dh \<le> 600 + 1 / 2 ^ 42
    \<and> 96 - 1 / 2 ^ 42 \<le> x \<and> 96 - 1 / 2 ^ 42 \<le> y
    \<and> x + dw \<le> 612 \<and> y + dh \<le> 792"
proof -
  have w0: "0 < w"
    using w(1) by (rule less_le_trans [rotated]) simp
  have h0: "0 < h"
    using h(1) by (rule less_le_trans [rotated]) simp
  define a1 where "a1 = 420 / w"
  define a2 where "a2 = 600 / h"
  define m where "m = min a1 a2"
  have a1: "420 / 2 ^ 500 \<le> a1" "a1 \<le> 420 * 2 ^ 500"
    using w w0 by (simp_all add: a1_def field_simps)
  have a2: "600 / 2 ^ 500 \<le> a2" "a2 \<le> 600 * 2 ^ 500"
    using h h0 by (simp_all add: a2_def field_simps)
  obtain v1 where v1: "round_double (420 / w) = Fin v1"
      "a1 * (1 - 1 / 2 ^ 53) \<le> v1" "v1 \<le> a1 * (1 + 1 / 2 ^ 53)"
    using round_double_near [OF a1] unfolding a1_def by auto
  obtain v2 where v2: "round_double (600 / h) = Fin v2"
      "a2 * (1 - 1 / 2 ^ 53) \<le> v2" "v2 \<le> a2 * (1 + 1 / 2 ^ 53)"
    using round_double_near [OF a2] unfolding a2_def by auto
  define s where "s = min v1 v2"
  have s: "m * (1 - 1 / 2 ^ 53) \<le> s" "s \<le> m * (1 + 1 / 2 ^ 53)"
    using v1(2,3) v2(2,3) by (auto simp: s_def m_def min_def)
  define M where "M = w * m"
  define N where "N = h * m"
  have wa1: "w * a1 = 420" and ha2: "h * a2 = 600"
    using w0 h0 by (simp_all add: a1_def a2_def)
  have ratio_wh: "1 / 2 ^ 1000 \<le> w / h"
  proof -
    have "(1 / 2 ^ 500) / 2 ^ 500 \<le> w / h"
      using w(1) h(2) h0 by (intro frac_le) simp_all
    then show ?thesis
      by simp
  qed
  have ratio_hw: "1 / 2 ^ 1000 \<le> h / w"
  proof -
    have "(1 / 2 ^ 500) / 2 ^ 500 \<le> h / w"
      using h(1) w(2) w0 by (intro frac_le) simp_all
    then show ?thesis
      by simp
  qed
  have wa2: "w * a2 = 600 * (w / h)" and ha1: "h * a1 = 420 * (h / w)"
    by (simp_all add: a1_def a2_def)
  have M: "1 / 2 ^ 1000 \<le> M" "M \<le> 420"
  proof -
    have "M = min (w * a1) (w * a2)"
      using w0 by (simp add: M_def m_def min_def)
    then have "M = min 420 (600 * (w / h))"
      by (simp only: wa1 wa2)
    then show "1 / 2 ^ 1000 \<le> M" "M \<le> 420"
      using ratio_wh by simp_all
  qed
  have N: "1 / 2 ^ 1000 \<le> N" "N \<le> 600"
  proof -
    have "N = min (h * a1) (h * a2)"
      using h0 by (simp add: N_def m_def min_def)
    then have "N = min (420 * (h / w)) 600"
      by (simp only: ha1 ha2)
    then show "1 / 2 ^ 1000 \<le> N" "N \<le> 600"
      using ratio_hw by simp_all
  qed
  define P where "P = w * s"
  define Q where "Q = h * s"
  have P: "M * (1 - 1 / 2 ^ 53) \<le> P" "P \<le> M * (1 + 1 / 2 ^ 53)"
    using mult_left_mono [OF s(1), of w] mult_left_mono [OF s(2), of w] w0
    by (simp_all add: M_def P_def mult.assoc)
  have Q: "N * (1 - 1 / 2 ^ 53) \<le> Q" "Q \<le> N * (1 + 1 / 2 ^ 53)"
    using mult_left_mono [OF s(1), of h] mult_left_mono [OF s(2), of h] h0
    by (simp_all add: N_def Q_def mult.assoc)
  have Pr: "1 / 2 ^ 1001 \<le> P" "P \<le> 421"
    using P M by simp_all
  have Qr: "1 / 2 ^ 1001 \<le> Q" "Q \<le> 601"
    using Q N by simp_all
  obtain dw where dw: "round_double (w * s) = Fin dw"
      "P * (1 - 1 / 2 ^ 53) \<le> dw" "dw \<le> P * (1 + 1 / 2 ^ 53)"
    using round_double_near [OF Pr] unfolding P_def by auto
  obtain dh where dh: "round_double (h * s) = Fin dh"
      "Q * (1 - 1 / 2 ^ 53) \<le> dh" "dh \<le> Q * (1 + 1 / 2 ^ 53)"
    using round_double_near [OF Qr] unfolding Q_def by auto
  have M0: "0 < M" and N0: "0 < N"
    using M(1) N(1) by (simp_all add: less_le_trans [rotated])
  have dwM: "M - 3 * M / 2 ^ 53 \<le> dw" "dw \<le> M + 3 * M / 2 ^ 53"
    using dw(2,3) P M0 by simp_all
  have dhN: "N - 3 * N / 2 ^ 53 \<le> dh" "dh \<le> N + 3 * N / 2 ^ 53"
    using dh(2,3) Q N0 by simp_all
  have dw_near: "M - 1260 / 2 ^ 53 \<le> dw" "dw \<le> M + 1260 / 2 ^ 53"
    using dwM M(2) M0 by simp_all
  have dh_near: "N - 1800 / 2 ^ 53 \<le> dh" "dh \<le> N + 1800 / 2 ^ 53"
    using dhN N(2) N0 by simp_all
  have pos: "0 < dw" "0 < dh"
    using dwM dhN M0 N0 by simp_all
  have T: "191 \<le> 612 - dw" "612 - dw \<le> 612"
    using dw_near M(2) pos(1) by simp_all
  obtain t where t: "round_double (612 - dw) = Fin t"
      "(612 - dw) * (1 - 1 / 2 ^ 53) \<le> t" "t \<le> (612 - dw) * (1 + 1 / 2 ^ 53)"
    using round_double_near [OF T] by auto
  have t_near: "612 - dw - 612 / 2 ^ 53 \<le> t" "t \<le> 612 - dw + 612 / 2 ^ 53"
    using t(2,3) T by simp_all
  have T2: "95 \<le> t / 2" "t / 2 \<le> 307"
    using t_near T by simp_all
  obtain x where x: "round_double (t / 2) = Fin x"
      "t / 2 * (1 - 1 / 2 ^ 53) \<le> x" "x \<le> t / 2 * (1 + 1 / 2 ^ 53)"
    using round_double_near [OF T2] by auto
  have x_near: "t / 2 - 307 / 2 ^ 53 \<le> x" "x \<le> t / 2 + 307 / 2 ^ 53"
    using x(2,3) T2 by simp_all
  have U: "191 \<le> 792 - dh" "792 - dh \<le> 792"
    using dh_near N(2) pos(2) by simp_all
  obtain t' where t': "round_double (792 - dh) = Fin t'"
      "(792 - dh) * (1 - 1 / 2 ^ 53) \<le> t'" "t' \<le> (792 - dh) * (1 + 1 / 2 ^ 53)"
    using round_double_near [OF U] by auto
  have t'_near: "792 - dh - 792 / 2 ^ 53 \<le> t'" "t' \<le> 792 - dh + 792 / 2 ^ 53"
    using t'(2,3) U by simp_all
  have U2: "95 \<le> t' / 2" "t' / 2 \<le> 397"
    using t'_near U by simp_all
  obtain y where y: "round_double (t' / 2) = Fin y"
      "t' / 2 * (1 - 1 / 2 ^ 53) \<le> y" "y \<le> t' / 2 * (1 + 1 / 2 ^ 53)"
    using round_double_near [OF U2] by auto
  have y_near: "t' / 2 - 397 / 2 ^ 53 \<le> y" "y \<le> t' / 2 + 397 / 2 ^ 53"
    using y(2,3) U2 by simp_all
  have fit: "fit_label_double (Fin w) (Fin h) =
      \<lparr>scale = Fin s, drawW = Fin dw, drawH = Fin dh, pos_x = Fin x, pos_y = Fin y\<rparr>"
    using w0 h0 v1(1) v2(1) dw(1) dh(1) t(1) x(1) t'(1) y(1)
    by (intro fit_label_doubleI [where ?v1.0 = v1 and ?v2.0 = v2 and t = t and t' = t'])
       (simp_all add: s_def)
  have m0: "0 < m"
    using a1 a2 by (simp add: m_def)
  have c_s: "\<bar>s - m\<bar> \<le> m / 2 ^ 53"
    using s by (intro abs_le_bounds) simp_all
  have c_dw: "\<bar>dw - M\<bar> \<le> 1 / 2 ^ 42"
    using dw_near by (intro abs_le_bounds) simp_all
  have c_dh: "\<bar>dh - N\<bar> \<le> 1 / 2 ^ 42"
    using dh_near by (intro abs_le_bounds) simp_all
  have c_x: "\<bar>x - (612 - M) / 2\<bar> \<le> 1 / 2 ^ 42"
    using x_near t_near dw_near by (intro abs_le_bounds) (simp_all add: diff_divide_distrib)
  have c_y: "\<bar>y - (792 - N) / 2\<bar> \<le> 1 / 2 ^ 42"
    using y_near t'_near dh_near by (intro abs_le_bounds) (simp_all add: diff_divide_distrib)
  have b_dw: "dw \<le> 420 + 1 / 2 ^ 42" and b_dh: "dh \<le> 600 + 1 / 2 ^ 42"
    using dw_near dh_near M(2) N(2) by simp_all
  have b_x: "96 - 1 / 2 ^ 42 \<le> x" and b_y: "96 - 1 / 2 ^ 42 \<le> y"
    using x_near t_near dw_near y_near t'_near dh_near M(2) N(2) by simp_all
  have in_x: "x + dw \<le> 612" and in_y: "y + dh \<le> 792"
    using x_near t_near dw_near y_near t'_near dh_near M(2) N(2) by simp_all
  define K where "K = w * h * s"
  have s0: "0 < s"
    using s(1) m0 by simp
  have K0: "0 < K"
    unfolding K_def using w0 h0 s0 by (intro mult_pos_pos)
  have "dw * h \<le> P * (1 + 1 / 2 ^ 53) * h" "P * (1 - 1 / 2 ^ 53) * h \<le> dw * h"
    using dw(2,3) h0 by (simp_all add: mult_right_mono)
  then have A: "dw * h \<le> K * (1 + 1 / 2 ^ 53)" "K * (1 - 1 / 2 ^ 53) \<le> dw * h"
    by (simp_all add: K_def P_def algebra_simps)
  have "dh * w \<le> Q * (1 + 1 / 2 ^ 53) * w" "Q * (1 - 1 / 2 ^ 53) * w \<le> dh * w"
    using dh(2,3) w0 by (simp_all add: mult_right_mono)
  then have B: "dh * w \<le> K * (1 + 1 / 2 ^ 53)" "K * (1 - 1 / 2 ^ 53) \<le> dh * w"
    by (simp_all add: K_def Q_def algebra_simps)
  have cross: "\<bar>dw * h - dh * w\<bar> \<le> dh * w / 2 ^ 51"
    using A B K0 by (intro abs_le_bounds) simp_all
  have "dw / dh - w / h = (dw * h - dh * w) / (dh * h)"
    using pos(2) h0 by (simp add: field_simps)
  then have "\<bar>dw / dh - w / h\<bar> = \<bar>dw * h - dh * w\<bar> / (dh * h)"
    using pos(2) h0 by (simp add: abs_mult)
  also have "\<dots> \<le> dh * w / 2 ^ 51 / (dh * h)"
    using cross pos(2) h0 by (intro divide_right_mono) simp_all
  also have "\<dots> = (w / h) / 2 ^ 51"
    using pos(2) h0 by simp
  finally have c_ratio: "\<bar>dw / dh - w / h\<bar> \<le> (w / h) / 2 ^ 51" .
  show ?thesis
    using fit c_s c_dw c_dh c_x c_y c_ratio pos b_dw b_dh b_x b_y in_x in_y
    unfolding M_def N_def m_def a1_def a2_def by blast
qed

text \<open>
  A label page of 312 by 432 units: the bounds hold with the tolerance.
\<close>

theorem C4_fit_within_tolerance_witness:
  "(1 / 2 ^ 500 \<le> (312::rat) \<and> (312::rat) \<le> 2 ^ 500
    \<and> 1 / 2 ^ 500 \<le> (432::rat) \<and> (432::rat) \<le> 2 ^ 500)
   \<and> (\<exists>s dw dh x y.
      fit_label_double (Fin 312) (Fin 432) =
        \<lparr>scale = Fin s, drawW = Fin dw, drawH = Fin dh, pos_x = Fin x, pos_y = Fin y\<rparr>
    \<and> \<bar>s - min (420 / 312) (600 / 432)\<bar> \<le> min (420 / 312) (600 / 432) / 2 ^ 53
    \<and> \<bar>dw - 312 * min (420 / 312) (600 / 432)\<bar> \<le> 1 / 2 ^ 42
    \<and> \<bar>dh - 432 * min (420 / 312) (600 / 432)\<bar> \<le> 1 / 2 ^ 42
    \<and> \<bar>x - (612 - 312 * min (420 / 312) (600 / 432)) / 2\<bar> \<le> 1 / 2 ^ 42
    \<and> \<bar>y - (792 - 432 * min (420 / 312) (600 / 432)) / 2\<bar> \<le> 1 / 2 ^ 42
    \<and> \<bar>dw / dh - 312 / 432\<bar> \<le> (312 / 432) / 2 ^ 51
    \<and> 0 < dw \<and> dw \<le> 420 + 1 / 2 ^ 42
    \<and> 0 < dh \<and> dh \<le> 600 + 1 / 2 ^ 42
    \<and> 96 - 1 / 2 ^ 42 \<le> x \<and> 96 - 1 / 2 ^ 42 \<le> y
    \<and> x + dw \<le> 612 \<and> y + dh \<le> 792)"
proof -
  have a: "1 / 2 ^ 500 \<le> (312::rat)" "(312::rat) \<le> 2 ^ 500"
      "1 / 2 ^ 500 \<le> (432::rat)" "(432::rat) \<le> 2 ^ 500"
    by simp_all
  show ?thesis
    using a C4_fit_within_tolerance [OF a] by blast
qed

text \<open>
  C4 as stated fails in binary64: for a label page of 312 by 432 units the quotient
  \<open>420 / 312\<close> rounds up, the product \<open>312 * scale\<close> rounds to \<open>420 + 2 ^ (- 44)\<close> and the
  offset is \<open>96 - 2 ^ (- 45)\<close>, so that neither \<open>drawW \<le> 420\<close> nor \<open>x \<ge> 96\<close> holds.
\<close>

theorem C4_counterexample:
  "drawW (fit_label_double (Fin 312) (Fin 432)) = Fin (420 + 1 / 2 ^ 44)
   \<and> pos_x (fit_label_double (Fin 312) (Fin 432)) = Fin (96 - 1 / 2 ^ 45)
   \<and> \<not> js_le (drawW (fit_label_double (Fin 312) (Fin 432))) (Fin 420)
   \<and> \<not> js_le (Fin 96) (pos_x (fit_label_double (Fin 312) (Fin 432)))"
  by (simp add: fit_label_double_312x432)

lemma truthy_falsy_set:
  "truthy v = (v \<notin> {JUndefined, JNull, JBool False, JNum NaN, JNum (Fin 0), JStr []})"
  by (cases v) auto

lemma handler_try_gated:
  assumes "gates_passed rt ev req b"
  shows "handler_try rt ev w req =
     (if missing_fields (read_fields rt b) \<noteq> [] then
        (if nullish b then (Inl (TypeError_null ''email''), [])
         else
           (Inr (sendJson 400
                  [(''ok'', JBool False),
                   (''error'',
                      JStr (''Missing required fields: ''
                            @ join '', '' (missing_fields (read_fields rt b))))]),
            snd (postToSheets (SHEETS_WEBHOOK_URL ev) (sheets_fetch w)
                   (validation_failPayload rt w b (read_fields rt b)
                      (missing_fields (read_fields rt b))))))
      else request_label rt ev w req b (read_fields rt b))"
  using assms
  by (simp add: gates_passed_def handler_try_def Let_def split_beta)

lemma requireField_None:
  "(requireField rt b k = None) = absent_or_blank rt b k"
  by (simp add: requireField_def absent_or_blank_def Let_def)

lemma missing_fields_filter:
  "missing_fields (read_fields rt b) = filter (absent_or_blank rt b) required"
  by (simp add: missing_fields_def read_fields_def required_def requireField_None)

lemma missing_create_filter:
  "missing_create rt b = filter (falsy_or_blank rt b) required"
  by (simp add: missing_create_def falsy_or_blank_def js_or_def trim_def cong: filter_cong)

lemma audit_records_postToSheets:
  "audit_records (snd (postToSheets url net p)) = [p]"
  by (simp add: postToSheets_def audit_records_def)

lemma network_calls_postToSheets:
  "network_calls (snd (postToSheets url net p)) = (if url = [] then [] else [url])"
  by (simp add: postToSheets_def network_calls_def)

text \<open>
  C7. A POST request whose Basic credential is absent, unparsable or different from the
  configured user and password is answered 401: nothing of the body is read, and the
  trace is empty (no network call, no audit record), whatever the body and the world.
\<close>

theorem C7_unauthorized_first:
  assumes "req_method req = ''POST''"
    and "MAIL_USER ev \<noteq> []" and "MAIL_PASS ev \<noteq> []"
    and "parseBasicAuth rt req \<noteq> Some (MAIL_USER ev, MAIL_PASS ev)"
  shows "handler rt ev w req = (unauthorized, []) \<and> res_status unauthorized = 401"
proof (cases "parseBasicAuth rt req")
  case None
  then show ?thesis
    using assms by (simp add: handler_def handler_try_def unauthorized_def)
next
  case (Some c)
  then show ?thesis
    using assms by (cases c) (auto simp add: handler_def handler_try_def unauthorized_def)
qed

text \<open>
  A wrong password, and no header at all.
\<close>

theorem C7_unauthorized_first_witness:
  "req_method intruder_request = ''POST''
   \<and> MAIL_USER example_env \<noteq> [] \<and> MAIL_PASS example_env \<noteq> []
   \<and> parseBasicAuth example_rt intruder_request = Some (''ops'', ''wrong'')
   \<and> handler example_rt example_env example_world intruder_request = (unauthorized, [])
   \<and> handler example_rt example_env example_world (jane_request\<lparr>req_headers := []\<rparr>) =
       (unauthorized, [])"
proof -
  have m: "req_method intruder_request = ''POST''"
      "req_method (jane_request\<lparr>req_headers := []\<rparr>) = ''POST''"
    by (simp_all add: example_defs)
  have u: "MAIL_USER example_env \<noteq> []" and p: "MAIL_PASS example_env \<noteq> []"
    by (simp_all add: example_env_def)
  have c: "parseBasicAuth example_rt intruder_request = Some (''ops'', ''wrong'')"
    by (simp add: example_defs parseBasicAuth_def header_def js_defs)
  have c': "parseBasicAuth example_rt intruder_request
              \<noteq> Some (MAIL_USER example_env, MAIL_PASS example_env)"
    by (simp add: c example_env_def)
  have a: "parseBasicAuth example_rt (jane_request\<lparr>req_headers := []\<rparr>)
              \<noteq> Some (MAIL_USER example_env, MAIL_PASS example_env)"
    by (simp add: example_defs parseBasicAuth_def header_def)
  show ?thesis
    using C7_unauthorized_first [OF m(1) u p c', of example_world]
          C7_unauthorized_first [OF m(2) u p a, of example_world] m u p c
    by simp
qed

text \<open>
  C9. \<open>getAccessToken\<close> throws exactly when the token endpoint is unreachable, answers
  with a status outside 2xx, or answers without an access token; otherwise it returns
  the access token of the response.
\<close>

theorem C9_token_broker:
  "(\<exists>e. fst (getAccessToken rt ev net) = Inl e) = token_failure net
   \<and> (if token_failure net then True
      else \<exists>st data t. net = FetchResp st (Some data) t
             \<and> fst (getAccessToken rt ev net) = Inr (get_prop data ''access_token''))"
proof (cases net)
  case (FetchThrows e)
  then show ?thesis
    by (simp add: getAccessToken_def token_failure_def Let_def)
next
  case (FetchResp st j t)
  then show ?thesis
    by (cases j)
       (auto simp add: getAccessToken_def token_failure_def Let_def json_or_null_def
          truthy_falsy_set)
qed

text \<open>
  A token endpoint that answers with a token, and three that fail.
\<close>

theorem C9_token_broker_witness:
  "fst (getAccessToken example_rt example_env (token_fetch example_carrier)) = Inr (JStr ''at-1'')
   \<and> token_failure (FetchThrows ''TypeError: fetch failed'')
   \<and> token_failure (FetchResp 401 (Some (JObj [(''access_token'', JStr ''at-1'')])) None)
   \<and> token_failure (FetchResp 200 (Some (JObj [(''token_type'', JStr ''Bearer'')])) None)
   \<and> fst (getAccessToken example_rt example_env (FetchThrows ''TypeError: fetch failed'')) =
       Inl ''TypeError: fetch failed''"
proof -
  have ok: "\<not> token_failure (token_fetch example_carrier)"
    by (simp add: token_failure_def example_carrier_def resp_ok_def)
  have bad: "token_failure (FetchThrows ''TypeError: fetch failed'')"
      "token_failure (FetchResp 401 (Some (JObj [(''access_token'', JStr ''at-1'')])) None)"
      "token_failure (FetchResp 200 (Some (JObj [(''token_type'', JStr ''Bearer'')])) None)"
    by (simp_all add: token_failure_def resp_ok_def)
  have thrown: "fst (getAccessToken example_rt example_env (FetchThrows ''TypeError: fetch failed'')) =
       Inl ''TypeError: fetch failed''"
    by (simp add: getAccessToken_def)
  show ?thesis
    using C9_token_broker [of example_rt example_env "token_fetch example_carrier"] ok bad thrown
    by (simp add: example_carrier_def)
qed

lemma submit_mail_sheets:
  "try_verdict (fst (submit_mail rt ev (w\<lparr>sheets_fetch := net\<rparr>) b fs lj tr)) =
   try_verdict (fst (submit_mail rt ev w b fs lj tr))"
  by (simp add: submit_mail_def Let_def split_beta try_verdict_def verdict_def json_field_def
        sendJson_def split: sum.splits fetch_result.splits)

lemma request_label_sheets:
  "try_verdict (fst (request_label rt ev (w\<lparr>sheets_fetch := net\<rparr>) req b fs)) =
   try_verdict (fst (request_label rt ev w req b fs))"
  by (simp add: request_label_def Let_def split_beta submit_mail_sheets
        split: fetch_result.splits)

lemma handler_try_sheets:
  "try_verdict (fst (handler_try rt ev (w\<lparr>sheets_fetch := net\<rparr>) req)) =
   try_verdict (fst (handler_try rt ev w req))"
  by (simp add: handler_try_def Let_def split_beta request_label_sheets
        split: sum.splits option.splits)

lemma handler_verdict:
  "verdict (fst (handler rt ev w req)) =
     (case try_verdict (fst (handler_try rt ev w req)) of
        Inl e \<Rightarrow> (500, Some (JBool False))
      | Inr v \<Rightarrow> v)"
  by (cases "handler_try rt ev w req"; cases "fst (handler_try rt ev w req)")
     (simp_all add: handler_def try_verdict_def verdict_def json_field_def sendJson_def split_beta)

lemma deliver_label_sheets:
  "try_verdict (fst (deliver_label rt ev (cw\<lparr>create_sheets_fetch := net\<rparr>) b sl a wo ld tr)) =
   try_verdict (fst (deliver_label rt ev cw b sl a wo ld tr'))"
  by (simp add: deliver_label_def Let_def split_beta try_verdict_def verdict_def json_field_def
        sendJson_def split: sum.splits)

lemma issue_label_sheets:
  "try_verdict (fst (issue_label rt ev (cw\<lparr>create_sheets_fetch := net\<rparr>) b sl a)) =
   try_verdict (fst (issue_label rt ev cw b sl a))"
  by (simp add: issue_label_def Let_def split_beta deliver_label_sheets [where tr' = "_ @ _"]
        split: sum.splits fetch_result.splits prod.splits)

lemma create_label_try_sheets:
  "try_verdict (fst (create_label_try rt ev (cw\<lparr>create_sheets_fetch := net\<rparr>) req)) =
   try_verdict (fst (create_label_try rt ev cw req))"
  by (simp add: create_label_try_def Let_def split_beta issue_label_sheets
        split: sum.splits)

lemma create_label_verdict:
  "verdict (fst (create_label rt ev cw req)) =
     (case try_verdict (fst (create_label_try rt ev cw req)) of
        Inl e \<Rightarrow> (500, Some (JBool False))
      | Inr v \<Rightarrow> v)"
  by (cases "create_label_try rt ev cw req"; cases "fst (create_label_try rt ev cw req)")
     (simp_all add: create_label_def try_verdict_def verdict_def json_field_def sendJson_def)

lemma create_label_sheets:
  "verdict (fst (create_label rt ev (cw\<lparr>create_sheets_fetch := net\<rparr>) req)) =
   verdict (fst (create_label rt ev cw req))"
  by (simp add: create_label_verdict create_label_try_sheets)

lemma submit_mail_draft_sheets:
  "try_verdict (fst (submit_mail_draft rt ev (w\<lparr>sheets_fetch := net\<rparr>) b fs lj tr)) =
   try_verdict (fst (submit_mail_draft rt ev w b fs lj tr))"
  by (simp add: submit_mail_draft_def Let_def split_beta try_verdict_def verdict_def
        json_field_def sendJson_def split: sum.splits fetch_result.splits)

lemma request_label_draft_sheets:
  "try_verdict (fst (request_label_draft rt ev (w\<lparr>sheets_fetch := net\<rparr>) req b fs)) =
   try_verdict (fst (request_label_draft rt ev w req b fs))"
  by (simp add: request_label_draft_def Let_def split_beta submit_mail_draft_sheets
        split: fetch_result.splits)
     (simp_all add: try_verdict_def verdict_def json_field_def sendJson_def)

lemma handler_draft_try_sheets:
  "try_verdict (fst (handler_draft_try rt ev (w\<lparr>sheets_fetch := net\<rparr>) req)) =
   try_verdict (fst (handler_draft_try rt ev w req))"
  by (simp add: handler_draft_try_def Let_def split_beta request_label_draft_sheets
        split: sum.splits option.splits)
     (simp_all add: try_verdict_def verdict_def json_field_def sendJson_def)

lemma handler_draft_verdict:
  "verdict (fst (handler_draft rt ev w req)) =
     (case try_verdict (fst (handler_draft_try rt ev w req)) of
        Inl e \<Rightarrow> (500, Some (JBool False))
      | Inr v \<Rightarrow> v)"
  by (cases "handler_draft_try rt ev w req"; cases "fst (handler_draft_try rt ev w req)")
     (simp_all add: handler_draft_def try_verdict_def verdict_def json_field_def sendJson_def)

lemma handler_draft_sheets:
  "verdict (fst (handler_draft rt ev (w\<lparr>sheets_fetch := net\<rparr>) req)) =
   verdict (fst (handler_draft rt ev w req))"
  by (simp add: handler_draft_verdict handler_draft_try_sheets)

text \<open>
  C8. Without a webhook URL \<open>postToSheets\<close> returns its skipped outcome and makes no
  network call; when the post throws, the error is in the returned value; and the status
  and \<open>ok\<close> flag of the response of each handler are the same whatever the webhook
  answers.
\<close>

theorem C8_audit_never_fails:
  "postToSheets [] net p = (JNull, [PostToSheets p])
   \<and> postToSheets_draft [] net p =
       (JObj [(''ok'', JBool False), (''status'', JNum (Fin 0)),
              (''error'', JStr ''Missing SHEETS_WEBHOOK_URL env var'')], [PostToSheets p])
   \<and> network_calls (snd (postToSheets [] net p)) = []
   \<and> network_calls (snd (postToSheets_draft [] net p)) = []
   \<and> (url \<noteq> [] \<longrightarrow>
        postToSheets url (FetchThrows e) p =
          (JObj [(''ok'', JBool False), (''error'', JStr e)],
           [PostToSheets p, Fetch url (JsonBody (JObj p))])
        \<and> postToSheets_draft url (FetchThrows e) p =
          (JObj [(''ok'', JBool False), (''status'', JNum (Fin 0)), (''error'', JStr e)],
           [PostToSheets p, Fetch url (JsonBody (JObj p))]))
   \<and> verdict (fst (handler rt ev (w\<lparr>sheets_fetch := net\<rparr>) req)) =
       verdict (fst (handler rt ev w req))
   \<and> verdict (fst (handler_draft rt ev (w\<lparr>sheets_fetch := net\<rparr>) req)) =
       verdict (fst (handler_draft rt ev w req))
   \<and> verdict (fst (create_label rt ev (cw\<lparr>create_sheets_fetch := net\<rparr>) req)) =
       verdict (fst (create_label rt ev cw req))"
  by (simp add: postToSheets_def postToSheets_draft_def network_calls_def handler_verdict
        handler_try_sheets handler_draft_sheets create_label_sheets)

text \<open>
  The webhook is unreachable: the end-to-end request is still answered 200.
\<close>

theorem C8_audit_never_fails_witness:
  "SHEETS_WEBHOOK_URL example_env \<noteq> []
   \<and> postToSheets (SHEETS_WEBHOOK_URL example_env) (FetchThrows ''TypeError: fetch failed'')
        [(''status'', JStr ''Created'')] =
       (JObj [(''ok'', JBool False), (''error'', JStr ''TypeError: fetch failed'')],
        [PostToSheets [(''status'', JStr ''Created'')],
         Fetch ''https://flow.example/audit'' (JsonBody (JObj [(''status'', JStr ''Created'')]))])
   \<and> verdict (fst (handler example_rt example_env
                     (example_world\<lparr>sheets_fetch := FetchThrows ''TypeError: fetch failed''\<rparr>)
                     jane_request)) = (200, Some (JBool True))"
proof -
  have u: "SHEETS_WEBHOOK_URL example_env \<noteq> []"
      "SHEETS_WEBHOOK_URL example_env = ''https://flow.example/audit''"
    by (simp_all add: example_env_def)
  have v: "verdict (fst (handler example_rt example_env example_world jane_request)) =
      (200, Some (JBool True))"
    by (simp add: verdict_def json_field_def example_defs mail_defs create_defs js_defs)
  show ?thesis
    using C8_audit_never_fails [where net = "FetchThrows ''TypeError: fetch failed''"
            and p = "[(''status'', JStr ''Created'')]" and url = "SHEETS_WEBHOOK_URL example_env"
            and e = "''TypeError: fetch failed''" and rt = example_rt and ev = example_env
            and w = example_world and req = jane_request and cw = example_carrier]
          u v
    by simp
qed

lemma audit_records_append:
  "audit_records (xs @ ys) = audit_records xs @ audit_records ys"
  by (simp add: audit_records_def)

lemma audit_records_Fetch:
  "audit_records (Fetch u fb # tr) = audit_records tr"
  by (simp add: audit_records_def)

lemma handler_Inr:
  "handler_try rt ev w req = (Inr res, tr) \<Longrightarrow> handler rt ev w req = (res, tr)"
  by (simp add: handler_def)

lemma request_label_issued:
  assumes "label_endpoint w (getBaseUrl req @ ''/api/create-label'') b =
             (FetchResp label_status lj lt, served)"
    and "label_issued label_status (json_or_null lj)"
  shows "request_label rt ev w req b fs =
           submit_mail rt ev w b fs (json_or_null lj)
             (Fetch (getBaseUrl req @ ''/api/create-label'') (JsonBody b) # served)"
  using assms by (simp add: request_label_def label_issued_def Let_def)

lemma submit_mail_rejected:
  assumes "buildInstructionsPlusLabelPdf (pdf_io w) = Inr doc"
    and "lob_fetch w = FetchResp lob_status j t"
    and "\<not> (resp_ok lob_status \<and> truthy (get_prop (json_or_null j) ''id''))"
  shows "submit_mail rt ev w b fs labelJson tr =
     (Inr (sendJson 400
            [(''ok'', JBool False),
             (''error'', JStr ''Lob letter creation failed''),
             (''httpStatus'', JNum (Fin (of_nat lob_status))),
             (''details'', json_or_null j)]),
      (tr @ [Fetch ''https://api.lob.com/v1/letters'' (lob_form ev fs doc)]) @
      snd (postToSheets (SHEETS_WEBHOOK_URL ev) (sheets_fetch w)
             (lob_failPayload rt w b fs labelJson
                (js_or (js_or (get_prop labelJson ''trackingNumber'')
                              (get_prop labelJson ''tracking_number'')) (JStr []))
                (normalizeWeightOz_mail rt b) lob_status)))"
  using assms by (auto simp add: submit_mail_def Let_def split_beta)

lemma submit_mail_accepted:
  assumes "buildInstructionsPlusLabelPdf (pdf_io w) = Inr doc"
    and "lob_fetch w = FetchResp lob_status j t"
    and "resp_ok lob_status" and "truthy (get_prop (json_or_null j) ''id'')"
  shows "submit_mail rt ev w b fs labelJson tr =
     (Inr (sendJson 200
            [(''ok'', JBool True),
             (''uspsTrackingNumber'',
                js_or (js_or (js_or (get_prop labelJson ''trackingNumber'')
                                    (get_prop labelJson ''tracking_number'')) (JStr [])) JNull),
             (''lobLetterId'', get_prop (json_or_null j) ''id''),
             (''lobStatus'', js_or (get_prop (json_or_null j) ''status'') JNull),
             (''sheetsLogged'',
                fst (postToSheets (SHEETS_WEBHOOK_URL ev) (sheets_fetch w)
                       (sheetsPayload rt w b fs labelJson (json_or_null j)
                          (js_or (js_or (get_prop labelJson ''trackingNumber'')
                                        (get_prop labelJson ''tracking_number'')) (JStr []))
                          (normalizeWeightOz_mail rt b))))]),
      (tr @ [Fetch ''https://api.lob.com/v1/letters'' (lob_form ev fs doc)]) @
      snd (postToSheets (SHEETS_WEBHOOK_URL ev) (sheets_fetch w)
             (sheetsPayload rt w b fs labelJson (json_or_null j)
                (js_or (js_or (get_prop labelJson ''trackingNumber'')
                              (get_prop labelJson ''tracking_number'')) (JStr []))
                (normalizeWeightOz_mail rt b))))"
  using assms by (simp add: submit_mail_def Let_def split_beta)




text \<open>The same branch in the other logging draft sets the same fields.\<close>

lemma draft_mail_failure_audit:
  assumes "buildInstructionsPlusLabelPdf (pdf_io w) = Inr doc"
    and "lob_fetch w = FetchResp lob_status j t"
    and "\<not> (resp_ok lob_status \<and> truthy (get_prop (json_or_null j) ''id''))"
  shows "res_status (case fst (submit_mail_draft rt ev w b fs labelJson []) of
                       Inr res \<Rightarrow> res | Inl e \<Rightarrow> sendJson 500 []) = 400
    \<and> map (\<lambda>p. (map_of p ''tracking_number'', map_of p ''latest_event'', map_of p ''status''))
        (audit_records (snd (submit_mail_draft rt ev w b fs labelJson []))) =
       [(Some (js_or (js_or (get_prop labelJson ''trackingNumber'')
                            (get_prop labelJson ''tracking_number'')) (JStr [])),
         Some (JStr (''Lob letter creation failed. HTTP '' @ show_nat lob_status)),
         Some (JStr ''Exception''))]"
  using assms
  by (auto simp add: submit_mail_draft_def Let_def split_beta sendJson_def audit_records_def
        postToSheets_draft_def lob_failPayload_draft_def)

text \<open>No response of the handler carries an empty \<open>uspsTrackingNumber\<close>.\<close>

lemma js_or_null_not_empty: "js_or v JNull \<noteq> JStr []"
  by (cases v) (simp_all add: js_or_def)

lemma submit_mail_never_empty:
  "submit_mail rt ev w b fs lj tr = (Inr res, tr') \<Longrightarrow>
   json_field res ''uspsTrackingNumber'' \<noteq> Some (JStr [])"
  by (auto simp add: submit_mail_def Let_def split_beta json_field_def sendJson_def
        js_or_null_not_empty split: sum.splits fetch_result.splits if_splits)

lemma request_label_never_empty:
  "request_label rt ev w req b fs = (Inr res, tr') \<Longrightarrow>
   json_field res ''uspsTrackingNumber'' \<noteq> Some (JStr [])"
  by (auto simp add: request_label_def Let_def split_beta json_field_def sendJson_def
        dest: submit_mail_never_empty split: fetch_result.splits if_splits)

lemma handler_try_never_empty:
  "handler_try rt ev w req = (Inr res, tr') \<Longrightarrow>
   json_field res ''uspsTrackingNumber'' \<noteq> Some (JStr [])"
  by (auto simp add: handler_try_def Let_def split_beta json_field_def sendJson_def
        unauthorized_def
        dest: request_label_never_empty split: sum.splits option.splits if_splits)

lemma uspsTrackingNumber_never_empty:
  "json_field (fst (handler rt ev w req)) ''uspsTrackingNumber'' \<noteq> Some (JStr [])"
proof (cases "handler_try rt ev w req")
  case (Pair r tr)
  show ?thesis
  proof (cases r)
    case (Inl e)
    then show ?thesis
      using Pair by (simp add: handler_def split_beta json_field_def sendJson_def)
  next
    case (Inr res)
    then show ?thesis
      using Pair handler_try_never_empty [of rt ev w req res tr] by (simp add: handler_def)
  qed
qed

text \<open>
  C10. On the path to the 200 response, \<open>uspsTrackingNumber\<close> is never the empty string;
  when the label response has no tracking number (absent or empty) it is \<open>null\<close>, the
  audit record has the status \<open>Created\<close> and its event says that no tracking number
  was returned.
\<close>

theorem C10_null_tracking:
  assumes "gates_passed rt ev req b" and "missing_fields (read_fields rt b) = []"
    and "label_endpoint w (getBaseUrl req @ ''/api/create-label'') b =
           (FetchResp label_status lj lt, served)"
    and "label_issued label_status (json_or_null lj)"
    and "buildInstructionsPlusLabelPdf (pdf_io w) = Inr doc"
    and "lob_fetch w = FetchResp lob_status j t"
    and "resp_ok lob_status" and "truthy (get_prop (json_or_null j) ''id'')"
  shows "res_status (fst (handler rt ev w req)) = 200
    \<and> json_field (fst (handler rt ev w req)) ''uspsTrackingNumber'' \<noteq> Some (JStr [])
    \<and> map_of (last (audit_records (snd (handler rt ev w req)))) ''status'' =
        Some (JStr ''Created'')
    \<and> (if truthy (get_prop (json_or_null lj) ''trackingNumber'') then
          json_field (fst (handler rt ev w req)) ''uspsTrackingNumber'' =
            Some (get_prop (json_or_null lj) ''trackingNumber'')
        else if truthy (get_prop (json_or_null lj) ''tracking_number'') then
          json_field (fst (handler rt ev w req)) ''uspsTrackingNumber'' =
            Some (get_prop (json_or_null lj) ''tracking_number'')
        else
          json_field (fst (handler rt ev w req)) ''uspsTrackingNumber'' = Some JNull
          \<and> map_of (last (audit_records (snd (handler rt ev w req)))) ''latest_event'' =
              Some (JStr ''Return label created (no tracking number returned); physical packet mailed.''))"
proof -
  let ?url = "getBaseUrl req @ ''/api/create-label''"
  let ?tn = "js_or (js_or (get_prop (json_or_null lj) ''trackingNumber'')
                          (get_prop (json_or_null lj) ''tracking_number'')) (JStr [])"
  let ?p = "sheetsPayload rt w b (read_fields rt b) (json_or_null lj) (json_or_null j) ?tn
              (normalizeWeightOz_mail rt b)"
  have "handler_try rt ev w req = request_label rt ev w req b (read_fields rt b)"
    using assms(1,2) by (simp add: handler_try_gated)
  also have "\<dots> = submit_mail rt ev w b (read_fields rt b) (json_or_null lj)
                     (Fetch ?url (JsonBody b) # served)"
    using assms(3,4) by (rule request_label_issued)
  finally have run: "handler rt ev w req =
      (sendJson 200
         [(''ok'', JBool True),
          (''uspsTrackingNumber'', js_or ?tn JNull),
          (''lobLetterId'', get_prop (json_or_null j) ''id''),
          (''lobStatus'', js_or (get_prop (json_or_null j) ''status'') JNull),
          (''sheetsLogged'',
             fst (postToSheets (SHEETS_WEBHOOK_URL ev) (sheets_fetch w) ?p))],
       ((Fetch ?url (JsonBody b) # served)
          @ [Fetch ''https://api.lob.com/v1/letters'' (lob_form ev (read_fields rt b) doc)])
        @ snd (postToSheets (SHEETS_WEBHOOK_URL ev) (sheets_fetch w) ?p))"
    using assms(5,6,7,8) by (simp add: submit_mail_accepted handler_Inr)
  have recs: "audit_records (snd (handler rt ev w req)) = audit_records served @ [?p]"
    by (simp add: run audit_records_append audit_records_Fetch audit_records_postToSheets)
  have usps: "json_field (fst (handler rt ev w req)) ''uspsTrackingNumber'' =
      Some (js_or ?tn JNull)"
    by (simp add: run json_field_def sendJson_def)
  have never_empty: "js_or ?tn JNull \<noteq> JStr []"
    by (auto simp add: js_or_def)
  have fields: "map_of ?p ''status'' = Some (JStr ''Created'')"
      "map_of ?p ''latest_event'' =
         Some (JStr (if truthy ?tn
            then ''Return label created; physical packet mailed.''
            else ''Return label created (no tracking number returned); physical packet mailed.''))"
    by (simp_all add: sheetsPayload_def)
  have status: "res_status (fst (handler rt ev w req)) = 200"
    by (simp add: run sendJson_def)
  show ?thesis
    using never_empty fields status by (simp add: recs usps) (simp add: js_or_def)
qed

text \<open>
  The label endpoint answers without a tracking number.
\<close>

theorem C10_null_tracking_witness:
  "gates_passed example_rt example_env jane_request jane_body
   \<and> missing_fields (read_fields example_rt jane_body) = []
   \<and> res_status (fst (handler example_rt example_env untracked_world jane_request)) = 200
   \<and> json_field (fst (handler example_rt example_env untracked_world jane_request))
        ''uspsTrackingNumber'' = Some JNull
   \<and> map_of (last (audit_records
                (snd (handler example_rt example_env untracked_world jane_request))))
        ''status'' = Some (JStr ''Created'')
   \<and> map_of (last (audit_records
                (snd (handler example_rt example_env untracked_world jane_request))))
        ''latest_event'' =
       Some (JStr ''Return label created (no tracking number returned); physical packet mailed.'')"
proof -
  let ?lj = "Some (JObj [(''ok'', JBool True), (''trackingNumber'', JStr []),
                         (''labelData'', JStr ''JVBERi0xLjQ='')])"
  let ?j = "Some (JObj [(''id'', JStr ''ltr_4868c3b754655f90''),
                        (''status'', JStr ''processed'')])"
  have g: "gates_passed example_rt example_env jane_request jane_body"
    by (simp add: gates_passed_def example_defs parseBasicAuth_def header_def parse_body_def
          js_defs)
  have m: "missing_fields (read_fields example_rt jane_body) = []"
    by (simp add: missing_fields_def read_fields_def requireField_def jane_body_def js_defs)
  have l: "label_endpoint untracked_world (getBaseUrl jane_request @ ''/api/create-label'')
             jane_body = (FetchResp 200 ?lj None, [])"
    by (simp add: untracked_world_def)
  have i: "label_issued 200 (json_or_null ?lj)"
    by (simp add: label_issued_def json_or_null_def resp_ok_def)
  have d: "buildInstructionsPlusLabelPdf (pdf_io untracked_world) =
      Inr [LetterPage (Fin 612) (Fin 792)
             \<lparr>draw_x = Fin 106, draw_y = Fin 96, xScale = Fin (25 / 18), yScale = Fin (25 / 18)\<rparr>]"
    by (simp add: untracked_world_def example_world_def buildInstructionsPlusLabelPdf_def
          fit_label_def LETTER_W_def LETTER_H_def targetW_def targetH_def Let_def)
  have f: "lob_fetch untracked_world = FetchResp 200 ?j None"
    by (simp add: untracked_world_def example_world_def)
  have r: "resp_ok 200" "truthy (get_prop (json_or_null ?j) ''id'')"
    by (simp_all add: resp_ok_def json_or_null_def)
  show ?thesis
    using C10_null_tracking [OF g m l i d f r] g m
    by (simp add: json_or_null_def)
qed

lemma falsy_or_blank_if_absent:
  "absent_or_blank rt b k \<Longrightarrow> falsy_or_blank rt b k"
  by (auto simp add: absent_or_blank_def falsy_or_blank_def)

text \<open>
  C2 (as amended). For a request that has passed the gates before validation and that
  misses a required field, api/mail-label.js answers 400 with the missing names in
  declaration order, posts one \<open>Exception\<close> audit record, and reaches the network only
  for that record, when the webhook is configured; api/create-label.js answers 400 with
  the names in the same order and an empty trace. Every field that is absent or blank is
  also missing for api/create-label.js.
\<close>

theorem C2_missing_fields:
  assumes "\<not> nullish b"
  shows "(gates_passed rt ev req b \<and> filter (absent_or_blank rt b) required \<noteq> [] \<longrightarrow>
            fst (handler rt ev w req) =
              sendJson 400
                [(''ok'', JBool False),
                 (''error'', JStr (''Missing required fields: ''
                                   @ join '', '' (filter (absent_or_blank rt b) required)))]
            \<and> audit_records (snd (handler rt ev w req)) =
                [validation_failPayload rt w b (read_fields rt b)
                   (filter (absent_or_blank rt b) required)]
            \<and> network_calls (snd (handler rt ev w req)) =
                (if SHEETS_WEBHOOK_URL ev = [] then [] else [SHEETS_WEBHOOK_URL ev]))
    \<and> (create_gates_passed rt ev req b \<and> filter (falsy_or_blank rt b) required \<noteq> [] \<longrightarrow>
            create_label rt ev cw req =
              (sendJson 400
                 [(''ok'', JBool False),
                  (''error'', JStr (''Missing required fields: ''
                                    @ join '', '' (filter (falsy_or_blank rt b) required)))],
               []))
    \<and> set (filter (absent_or_blank rt b) required) \<subseteq> set (filter (falsy_or_blank rt b) required)"
proof (intro conjI impI)
  assume g: "gates_passed rt ev req b \<and> filter (absent_or_blank rt b) required \<noteq> []"
  then have gp: "gates_passed rt ev req b"
    and ne: "missing_fields (read_fields rt b) \<noteq> []"
    by (simp_all add: missing_fields_filter)
  have "handler_try rt ev w req =
      (Inr (sendJson 400
         [(''ok'', JBool False),
          (''error'', JStr (''Missing required fields: ''
                            @ join '', '' (filter (absent_or_blank rt b) required)))]),
       snd (postToSheets (SHEETS_WEBHOOK_URL ev) (sheets_fetch w)
              (validation_failPayload rt w b (read_fields rt b)
                 (filter (absent_or_blank rt b) required))))"
    using assms ne by (simp add: handler_try_gated [OF gp] missing_fields_filter)
  then have run: "handler rt ev w req =
      (sendJson 400
         [(''ok'', JBool False),
          (''error'', JStr (''Missing required fields: ''
                            @ join '', '' (filter (absent_or_blank rt b) required)))],
       snd (postToSheets (SHEETS_WEBHOOK_URL ev) (sheets_fetch w)
              (validation_failPayload rt w b (read_fields rt b)
                 (filter (absent_or_blank rt b) required))))"
    by (rule handler_Inr)
  show "fst (handler rt ev w req) =
      sendJson 400
        [(''ok'', JBool False),
         (''error'', JStr (''Missing required fields: ''
                           @ join '', '' (filter (absent_or_blank rt b) required)))]"
    by (simp add: run)
  show "audit_records (snd (handler rt ev w req)) =
      [validation_failPayload rt w b (read_fields rt b) (filter (absent_or_blank rt b) required)]"
    by (simp add: run audit_records_postToSheets)
  show "network_calls (snd (handler rt ev w req)) =
      (if SHEETS_WEBHOOK_URL ev = [] then [] else [SHEETS_WEBHOOK_URL ev])"
    by (simp add: run network_calls_postToSheets)
next
  assume g: "create_gates_passed rt ev req b \<and> filter (falsy_or_blank rt b) required \<noteq> []"
  then show "create_label rt ev cw req =
      (sendJson 400
         [(''ok'', JBool False),
          (''error'', JStr (''Missing required fields: ''
                            @ join '', '' (filter (falsy_or_blank rt b) required)))],
       [])"
    using assms
    by (simp add: create_gates_passed_def create_label_def create_label_try_def Let_def
          missing_create_filter)
next
  show "set (filter (absent_or_blank rt b) required) \<subseteq> set (filter (falsy_or_blank rt b) required)"
    by (auto simp add: falsy_or_blank_if_absent)
qed

text \<open>The request without a name and with a blank city.\<close>

theorem C2_missing_fields_witness:
  "\<not> nullish nameless_body
   \<and> gates_passed example_rt example_env nameless_request nameless_body
   \<and> create_gates_passed example_rt example_env nameless_request nameless_body
   \<and> filter (absent_or_blank example_rt nameless_body) required = [''name'', ''city'']
   \<and> fst (handler example_rt example_env example_world nameless_request) =
       sendJson 400 [(''ok'', JBool False),
                     (''error'', JStr ''Missing required fields: name, city'')]
   \<and> network_calls (snd (handler example_rt example_env example_world nameless_request)) =
       [''https://flow.example/audit'']
   \<and> create_label example_rt example_env example_carrier nameless_request =
       (sendJson 400 [(''ok'', JBool False),
                      (''error'', JStr ''Missing required fields: name, city'')], [])"
proof -
  have n: "\<not> nullish nameless_body"
    by (simp add: nullish_def nameless_body_def)
  have g: "gates_passed example_rt example_env nameless_request nameless_body"
    by (simp add: gates_passed_def example_defs parseBasicAuth_def header_def parse_body_def
          js_defs)
  have c: "create_gates_passed example_rt example_env nameless_request nameless_body"
    by (simp add: create_gates_passed_def example_defs parse_body_def)
  have m: "filter (absent_or_blank example_rt nameless_body) required = [''name'', ''city'']"
    by (simp add: absent_or_blank_def required_def nameless_body_def js_defs)
  have f: "filter (falsy_or_blank example_rt nameless_body) required = [''name'', ''city'']"
    by (simp add: falsy_or_blank_def required_def nameless_body_def js_defs)
  have u: "SHEETS_WEBHOOK_URL example_env = ''https://flow.example/audit''"
    by (simp add: example_env_def)
  show ?thesis
    using C2_missing_fields [OF n, of example_rt example_env nameless_request example_world
            example_carrier] n g c m f u
    by simp
qed

text \<open>
  C2 as stated fails: with the webhook configured, the request without a name is answered
  400 after one network call, the post of the audit record.
\<close>

theorem C2_counterexample:
  "absent_or_blank example_rt nameless_body ''name''
   \<and> res_status (fst (handler example_rt example_env example_world nameless_request)) = 400
   \<and> network_calls (snd (handler example_rt example_env example_world nameless_request)) =
       [''https://flow.example/audit'']
   \<and> network_calls (snd (handler example_rt example_env example_world nameless_request)) \<noteq> []"
  by (simp add: absent_or_blank_def example_defs mail_defs js_defs network_calls_def)

text \<open>
  A body that is the JSON text \<open>null\<close> misses every field, but the handler throws while
  it builds the audit record and answers 500 from its \<open>catch\<close>.
\<close>

lemma null_body_crashes:
  "res_status (fst (handler example_rt example_env example_world
                      (jane_request\<lparr>req_body := JStr ''null''\<rparr>))) = 500
   \<and> map (\<lambda>p. map_of p ''latest_event'')
        (audit_records (snd (handler example_rt example_env example_world
                               (jane_request\<lparr>req_body := JStr ''null''\<rparr>)))) =
       [Some (JStr (''Unhandled error: '' @ TypeError_null ''email''))]"
  by (simp add: audit_records_def example_defs mail_defs js_defs)

subsection \<open>One audit record per request\<close>

text \<open>
  When the label endpoint itself records nothing, the handler of api/mail-label.js
  attempts exactly one audit record on every exit after the credential and
  configuration gates, and the record has the stable schema.
\<close>

lemma js_or_defined: "b \<noteq> JUndefined \<Longrightarrow> js_or a b \<noteq> JUndefined"
  by (cases a) (auto simp add: js_or_def)

lemma js_field_defined: "js_field v \<noteq> JUndefined"
  by (cases v) (simp_all add: js_field_def)

lemma js_nullish_or_defined: "js_nullish_or a JNull \<noteq> JUndefined"
  by (simp add: js_nullish_or_def nullish_def)

lemma String_or_empty_defined: "String_or_empty rt v \<noteq> JUndefined"
  by (simp add: String_or_empty_def)

lemma weight_defined: "normalizeWeightOz_mail rt b \<noteq> JUndefined"
  by (simp add: normalizeWeightOz_mail_def Let_def)

lemmas defined = js_or_defined js_field_defined js_nullish_or_defined String_or_empty_defined
  weight_defined

lemma stable_validation: "stable_record (validation_failPayload rt w b fs missing)"
  using defined [THEN not_sym]
  by (simp add: stable_record_def validation_failPayload_def audit_fields_def)

lemma stable_label: "stable_record (label_failPayload rt w b fs st)"
  using defined [THEN not_sym]
  by (simp add: stable_record_def label_failPayload_def audit_fields_def)

lemma stable_crash: "stable_record (crashPayload w e)"
  by (simp add: stable_record_def crashPayload_def audit_fields_def)

lemma stable_lob:
  assumes "tn \<noteq> JUndefined" and "wo \<noteq> JUndefined"
  shows "stable_record (lob_failPayload rt w b fs lj tn wo st)"
  using defined [THEN not_sym] assms [THEN not_sym] js_or_defined [THEN not_sym]
  by (simp add: stable_record_def lob_failPayload_def audit_fields_def)

lemma truthy_defined: "truthy v \<Longrightarrow> v \<noteq> JUndefined"
  by (cases v) simp_all

lemma stable_sheets:
  assumes "tn \<noteq> JUndefined" and "wo \<noteq> JUndefined"
    and "truthy (get_prop lobJson ''id'')"
  shows "stable_record (sheetsPayload rt w b fs lj lobJson tn wo)"
  using defined [THEN not_sym] assms(1,2) [THEN not_sym] js_or_defined [THEN not_sym]
    truthy_defined [OF assms(3), THEN not_sym]
  by (simp add: stable_record_def sheetsPayload_def audit_fields_def)

lemma audit_one: "audit_records (tr @ snd (postToSheets url net p)) = audit_records tr @ [p]"
  by (simp add: audit_records_append audit_records_postToSheets)

lemma audit_records_Nil: "audit_records [] = []"
  by (simp add: audit_records_def)

lemma audit_after_fetch:
  "audit_records tr = [] \<Longrightarrow>
   audit_records ((tr @ [Fetch u fb]) @ snd (postToSheets url net p)) = [p]"
  by (simp add: audit_records_append audit_records_Fetch audit_records_Nil
        audit_records_postToSheets)

lemma tracking_defined:
  "js_or (js_or a b) (JStr []) \<noteq> JUndefined"
  by (rule js_or_defined) simp

lemma submit_mail_one:
  assumes "audit_records tr = []"
  shows "(\<exists>e tr'. submit_mail rt ev w b fs lj tr = (Inl e, tr') \<and> audit_records tr' = [])
       \<or> (\<exists>res tr' p. submit_mail rt ev w b fs lj tr = (Inr res, tr')
             \<and> audit_records tr' = [p] \<and> stable_record p)"
proof (cases "buildInstructionsPlusLabelPdf (pdf_io w)")
  case (Inl e)
  then have "submit_mail rt ev w b fs lj tr = (Inl e, tr)"
    by (simp add: submit_mail_def Let_def)
  then show ?thesis
    using assms by blast
next
  case (Inr doc)
  show ?thesis
  proof (cases "lob_fetch w")
    case (FetchThrows e)
    then have "submit_mail rt ev w b fs lj tr =
        (Inl e, tr @ [Fetch ''https://api.lob.com/v1/letters'' (lob_form ev fs doc)])"
      using Inr by (simp add: submit_mail_def Let_def)
    moreover have "audit_records
        (tr @ [Fetch ''https://api.lob.com/v1/letters'' (lob_form ev fs doc)]) = []"
      using assms by (simp add: audit_records_append audit_records_Fetch audit_records_Nil)
    ultimately show ?thesis
      by blast
  next
    case (FetchResp st j t)
    show ?thesis
    proof (cases "resp_ok st \<and> truthy (get_prop (json_or_null j) ''id'')")
      case True
      then have ok: "resp_ok st" and id: "truthy (get_prop (json_or_null j) ''id'')"
        by simp_all
      note run = submit_mail_accepted [OF Inr FetchResp ok id, of rt ev b fs lj tr]
      have "stable_record (sheetsPayload rt w b fs lj (json_or_null j)
              (js_or (js_or (get_prop lj ''trackingNumber'') (get_prop lj ''tracking_number''))
                 (JStr [])) (normalizeWeightOz_mail rt b))"
        using tracking_defined weight_defined id by (rule stable_sheets)
      then show ?thesis
        using run audit_after_fetch [OF assms] by blast
    next
      case False
      note run = submit_mail_rejected [OF Inr FetchResp False, of rt ev b fs lj tr]
      have "stable_record (lob_failPayload rt w b fs lj
              (js_or (js_or (get_prop lj ''trackingNumber'') (get_prop lj ''tracking_number''))
                 (JStr [])) (normalizeWeightOz_mail rt b) st)"
        using tracking_defined weight_defined by (rule stable_lob)
      then show ?thesis
        using run audit_after_fetch [OF assms] by blast
    qed
  qed
qed

lemma handler_Inl:
  "handler_try rt ev w req = (Inl e, tr) \<Longrightarrow>
   handler rt ev w req =
     (sendJson 500 [(''ok'', JBool False), (''error'', JStr e)],
      tr @ snd (postToSheets (SHEETS_WEBHOOK_URL ev) (sheets_fetch w) (crashPayload w e)))"
  by (simp add: handler_def split_beta)

lemma request_label_one:
  assumes "audit_records (snd (label_endpoint w (getBaseUrl req @ ''/api/create-label'') b)) = []"
  shows "(\<exists>e tr'. request_label rt ev w req b fs = (Inl e, tr') \<and> audit_records tr' = [])
       \<or> (\<exists>res tr' p. request_label rt ev w req b fs = (Inr res, tr')
             \<and> audit_records tr' = [p] \<and> stable_record p)"
proof -
  let ?url = "getBaseUrl req @ ''/api/create-label''"
  obtain labelResp served where le: "label_endpoint w ?url b = (labelResp, served)"
    by (cases "label_endpoint w ?url b")
  have quiet: "audit_records (Fetch ?url (JsonBody b) # served) = []"
    using assms le by (simp add: audit_records_Fetch)
  show ?thesis
  proof (cases labelResp)
    case (FetchThrows e)
    then have "request_label rt ev w req b fs = (Inl e, Fetch ?url (JsonBody b) # served)"
      using le by (simp add: request_label_def Let_def)
    then show ?thesis
      using quiet by blast
  next
    case (FetchResp st j t)
    show ?thesis
    proof (cases "label_issued st (json_or_null j)")
      case True
      have "request_label rt ev w req b fs =
          submit_mail rt ev w b fs (json_or_null j) (Fetch ?url (JsonBody b) # served)"
        using le FetchResp True by (simp add: request_label_issued)
      then show ?thesis
        using submit_mail_one [OF quiet, of rt ev w b fs "json_or_null j"] by simp
    next
      case False
      then have "request_label rt ev w req b fs =
          (Inr (sendJson 400
                 [(''ok'', JBool False),
                  (''error'', JStr ''Label creation failed''),
                  (''httpStatus'', JNum (Fin (of_nat st))),
                  (''details'', json_or_null j)]),
           (Fetch ?url (JsonBody b) # served) @
           snd (postToSheets (SHEETS_WEBHOOK_URL ev) (sheets_fetch w)
                  (label_failPayload rt w b fs st)))"
        using le FetchResp
        by (simp add: request_label_def label_issued_def Let_def split_beta)
      moreover have "audit_records ((Fetch ?url (JsonBody b) # served) @
           snd (postToSheets (SHEETS_WEBHOOK_URL ev) (sheets_fetch w)
                  (label_failPayload rt w b fs st))) = [label_failPayload rt w b fs st]"
        by (simp only: audit_records_append quiet audit_records_postToSheets append_Nil)
      ultimately show ?thesis
        using stable_label [of rt w b fs st] by blast
    qed
  qed
qed

lemma handler_try_one:
  assumes "req_method req = ''POST''" and "MAIL_USER ev \<noteq> []" and "MAIL_PASS ev \<noteq> []"
    and "parseBasicAuth rt req = Some (MAIL_USER ev, MAIL_PASS ev)"
    and "LOB_API_KEY ev \<noteq> []"
    and "\<And>b. audit_records (snd (label_endpoint w (getBaseUrl req @ ''/api/create-label'') b)) = []"
  shows "(\<exists>e tr'. handler_try rt ev w req = (Inl e, tr') \<and> audit_records tr' = [])
       \<or> (\<exists>res tr' p. handler_try rt ev w req = (Inr res, tr')
             \<and> audit_records tr' = [p] \<and> stable_record p)"
proof (cases "parse_body rt (req_body req)")
  case (Inl e)
  then have "handler_try rt ev w req = (Inl e, [])"
    using assms(1-4) by (simp add: handler_try_def)
  then show ?thesis
    using audit_records_Nil by blast
next
  case (Inr b)
  then have g: "gates_passed rt ev req b"
    using assms(1-5) by (simp add: gates_passed_def)
  note run = handler_try_gated [OF g, of w]
  show ?thesis
  proof (cases "missing_fields (read_fields rt b) = []")
    case True
    then have "handler_try rt ev w req = request_label rt ev w req b (read_fields rt b)"
      using run by simp
    then show ?thesis
      using request_label_one [OF assms(6), of rt ev b "read_fields rt b"] by simp
  next
    case False
    show ?thesis
    proof (cases "nullish b")
      case True
      then have "handler_try rt ev w req = (Inl (TypeError_null ''email''), [])"
        using run False by simp
      then show ?thesis
        using audit_records_Nil by blast
    next
      case notnull: False
      let ?p = "validation_failPayload rt w b (read_fields rt b)
                  (missing_fields (read_fields rt b))"
      have "handler_try rt ev w req =
          (Inr (sendJson 400
                 [(''ok'', JBool False),
                  (''error'', JStr (''Missing required fields: ''
                                    @ join '', '' (missing_fields (read_fields rt b))))]),
           snd (postToSheets (SHEETS_WEBHOOK_URL ev) (sheets_fetch w) ?p))"
        using run False notnull by simp
      moreover have "audit_records
          (snd (postToSheets (SHEETS_WEBHOOK_URL ev) (sheets_fetch w) ?p)) = [?p]"
        by (rule audit_records_postToSheets)
      ultimately show ?thesis
        using stable_validation [of rt w b "read_fields rt b" "missing_fields (read_fields rt b)"]
        by blast
    qed
  qed
qed

lemma handler_one_record:
  assumes "req_method req = ''POST''" and "MAIL_USER ev \<noteq> []" and "MAIL_PASS ev \<noteq> []"
    and "parseBasicAuth rt req = Some (MAIL_USER ev, MAIL_PASS ev)"
    and "LOB_API_KEY ev \<noteq> []"
    and "\<And>b. audit_records (snd (label_endpoint w (getBaseUrl req @ ''/api/create-label'') b)) = []"
  shows "\<exists>p. audit_records (snd (handler rt ev w req)) = [p] \<and> stable_record p"
proof -
  consider (thrown) e tr' where "handler_try rt ev w req = (Inl e, tr')" "audit_records tr' = []"
    | (sent) res tr' p where "handler_try rt ev w req = (Inr res, tr')"
        "audit_records tr' = [p]" "stable_record p"
    using handler_try_one [OF assms] by blast
  then show ?thesis
  proof cases
    case thrown
    then have "audit_records (snd (handler rt ev w req)) = [crashPayload w e]"
      by (simp add: handler_Inl audit_records_append audit_records_postToSheets)
    then show ?thesis
      using stable_crash by blast
  next
    case sent
    then show ?thesis
      by (simp add: handler_Inr)
  qed
qed

text \<open>
  C6. In the deployment of the repository the label endpoint is api/create-label.js,
  and api/mail-label.js forwards the body without \<open>skipLogging\<close>: the end-to-end
  request is answered 200 after two audit records, one from each endpoint.
\<close>

theorem C6_double_audit:
  "map (\<lambda>p. (map_of p ''source'', map_of p ''status''))
     (audit_records (snd (handler example_rt example_env example_world jane_request))) =
   [(Some (JStr ''Connect Print''), Some (JStr ''Created'')),
    (Some (JStr ''physical-mail''), Some (JStr ''Created''))]
   \<and> res_status (fst (handler example_rt example_env example_world jane_request)) = 200"
  by (simp add: audit_records_def example_defs mail_defs create_defs js_defs)

text \<open>
  The other logging draft forwards \<open>skipLogging: true\<close>: in the same deployment the
  same request leaves one audit record.
\<close>

lemma draft_single_audit:
  "map (\<lambda>p. (map_of p ''source'', map_of p ''status''))
     (audit_records (snd (handler_draft example_rt example_env example_world jane_request))) =
   [(Some (JStr ''CAphysical-mail''), Some (JStr ''Created''))]
   \<and> res_status (fst (handler_draft example_rt example_env example_world jane_request)) = 200"
  by (simp add: audit_records_def example_defs mail_defs create_defs js_defs draft_defs)

end
